theory Spec2Isabelle
  imports Main
begin

section \<open>Python strings\<close>

text \<open>
  Strings are character lists and are read as ASCII text.  The functions below
  follow the Python built-ins used by \<^verbatim>\<open>scraper.py\<close> and \<^verbatim>\<open>utils.py\<close>.
\<close>

definition startswith :: "string \<Rightarrow> string \<Rightarrow> bool" where
  "startswith s p \<longleftrightarrow> take (length p) s = p"

definition endswith :: "string \<Rightarrow> string \<Rightarrow> bool" where
  "endswith s p \<longleftrightarrow> startswith (rev s) (rev p)"

text \<open>\<^verbatim>\<open>sub in s\<close> on strings: \<open>sub\<close> occurs in \<open>s\<close> as a contiguous block.\<close>

fun str_in :: "string \<Rightarrow> string \<Rightarrow> bool" where
  "str_in sub [] = (sub = [])"
| "str_in sub (c # cs) = (startswith (c # cs) sub \<or> str_in sub cs)"

text \<open>\<^verbatim>\<open>s.split(c)\<close> for a one-character separator; the result is never empty.\<close>

fun split_chr :: "char \<Rightarrow> string \<Rightarrow> string list" where
  "split_chr c [] = [[]]"
| "split_chr c (x # xs) =
     (if x = c then [] # split_chr c xs
      else (case split_chr c xs of
              [] \<Rightarrow> [[x]]
            | w # ws \<Rightarrow> (x # w) # ws))"

text \<open>\<^verbatim>\<open>sep.join(parts)\<close>.\<close>

fun join :: "string \<Rightarrow> string list \<Rightarrow> string" where
  "join sep [] = []"
| "join sep [p] = p"
| "join sep (p # q # ps) = p @ sep @ join sep (q # ps)"

definition is_space :: "char \<Rightarrow> bool" where
  "is_space c \<longleftrightarrow>
     c \<in> set [CHR 0x20, CHR 0x09, CHR 0x0A, CHR 0x0B, CHR 0x0C, CHR 0x0D,
              CHR 0x1C, CHR 0x1D, CHR 0x1E, CHR 0x1F]"

definition strip :: "string \<Rightarrow> string" where
  "strip s = rev (dropWhile is_space (rev (dropWhile is_space s)))"

definition lower_chr :: "char \<Rightarrow> char" where
  "lower_chr c =
     (case map_of
        [(CHR ''A'', CHR ''a''), (CHR ''B'', CHR ''b''), (CHR ''C'', CHR ''c''), (CHR ''D'', CHR ''d''),
         (CHR ''E'', CHR ''e''), (CHR ''F'', CHR ''f''), (CHR ''G'', CHR ''g''), (CHR ''H'', CHR ''h''),
         (CHR ''I'', CHR ''i''), (CHR ''J'', CHR ''j''), (CHR ''K'', CHR ''k''), (CHR ''L'', CHR ''l''),
         (CHR ''M'', CHR ''m''), (CHR ''N'', CHR ''n''), (CHR ''O'', CHR ''o''), (CHR ''P'', CHR ''p''),
         (CHR ''Q'', CHR ''q''), (CHR ''R'', CHR ''r''), (CHR ''S'', CHR ''s''), (CHR ''T'', CHR ''t''),
         (CHR ''U'', CHR ''u''), (CHR ''V'', CHR ''v''), (CHR ''W'', CHR ''w''), (CHR ''X'', CHR ''x''),
         (CHR ''Y'', CHR ''y''), (CHR ''Z'', CHR ''z'')] c of
        None \<Rightarrow> c
      | Some d \<Rightarrow> d)"

definition lower :: "string \<Rightarrow> string" where
  "lower s = map lower_chr s"

text \<open>
  \<^verbatim>\<open>s.replace(old, new)\<close>: every occurrence of \<open>old\<close>, left to right and without
  overlap.  The counter holds how many characters of an occurrence already
  replaced are still to be dropped.  Only a non-empty \<open>old\<close> is used.
\<close>

fun replace_from :: "nat \<Rightarrow> string \<Rightarrow> string \<Rightarrow> string \<Rightarrow> string" where
  "replace_from k old new [] = []"
| "replace_from (Suc k) old new (c # cs) = replace_from k old new cs"
| "replace_from 0 old new (c # cs) =
     (if startswith (c # cs) old then new @ replace_from (length old - 1) old new cs
      else c # replace_from 0 old new cs)"

definition replace :: "string \<Rightarrow> string \<Rightarrow> string \<Rightarrow> string" where
  "replace s old new = replace_from 0 old new s"

section \<open>Library functions taken as parameters\<close>

datatype exn = ValueError | TimeoutError | ClientError | OSError

text \<open>
  A parsed page: the elements of the document in document order, each with its
  tag, its attributes and the text it holds (\<^verbatim>\<open>.string\<close>).
\<close>

datatype element = Element (tag: string) (attrs: "(string \<times> string) list") (text_of: "string option")

type_synonym soup = "element list"

text \<open>
  The functions of the Python libraries that the crawler calls and that are not
  part of the repository: \<^verbatim>\<open>hashlib.md5(..).hexdigest()\<close>, \<^verbatim>\<open>urllib.parse.urljoin\<close>
  and \<^verbatim>\<open>unquote_plus\<close>, the host validation inside \<^verbatim>\<open>urlsplit\<close>,
  \<^verbatim>\<open>RobotFileParser.parse\<close> followed by \<^verbatim>\<open>can_fetch\<close> (robots.txt text, agent, URL),
  and BeautifulSoup's parser and printer.
\<close>

record pylib =
  md5_hexdigest :: "string \<Rightarrow> string"
  urljoin :: "string \<Rightarrow> string \<Rightarrow> exn + string"
  unquote_plus :: "string \<Rightarrow> string"
  check_bracketed_host :: "string \<Rightarrow> bool"
  rp_can_fetch :: "string \<Rightarrow> string \<Rightarrow> string \<Rightarrow> exn + bool"
  parse_html :: "string \<Rightarrow> soup"
  render_html :: "soup \<Rightarrow> string"

section \<open>urllib.parse.urlparse and os.path.splitext\<close>

record parse_result =
  scheme :: string
  netloc :: string
  path :: string
  params :: string
  query :: string
  fragment :: string

definition is_alpha :: "char \<Rightarrow> bool" where
  "is_alpha c \<longleftrightarrow> c \<in> set ''abcdefghijklmnopqrstuvwxyzABCDEFGHIJKLMNOPQRSTUVWXYZ''"

definition scheme_chars :: "char set" where
  "scheme_chars = set ''abcdefghijklmnopqrstuvwxyzABCDEFGHIJKLMNOPQRSTUVWXYZ0123456789+-.''"

definition c0_or_space :: "char \<Rightarrow> bool" where
  "c0_or_space c \<longleftrightarrow> (of_char c :: nat) \<le> 32"

definition uses_params :: "string list" where
  "uses_params = ['''', ''ftp'', ''hdl'', ''prospero'', ''http'', ''imap'', ''https'',
     ''shttp'', ''rtsp'', ''rtspu'', ''sip'', ''sips'', ''mms'', ''sftp'', ''tel'']"

text \<open>The scheme: the text before the first colon, if it is a letter followed by scheme characters.\<close>

definition split_scheme :: "string \<Rightarrow> string \<times> string" where
  "split_scheme url =
     (let pre = takeWhile (\<lambda>c. c \<noteq> CHR '':'') url in
      if CHR '':'' \<in> set url \<and> pre \<noteq> [] \<and> is_alpha (hd pre) \<and> set pre \<subseteq> scheme_chars
      then (lower pre, drop (length pre + 1) url)
      else ([], url))"

definition netloc_delim :: "char \<Rightarrow> bool" where
  "netloc_delim c \<longleftrightarrow> c \<in> set ''/?#''"

text \<open>\<^verbatim>\<open>netloc.partition('[')[2].partition(']')[0]\<close>\<close>

definition bracketed_host :: "string \<Rightarrow> string" where
  "bracketed_host nl =
     takeWhile (\<lambda>c. c \<noteq> CHR '']'') (drop 1 (dropWhile (\<lambda>c. c \<noteq> CHR ''['') nl))"

definition urlsplit :: "pylib \<Rightarrow> string \<Rightarrow> exn + parse_result" where
  "urlsplit lib url0 =
     (let url1 = filter (\<lambda>c. c \<notin> set [CHR 0x09, CHR 0x0D, CHR 0x0A]) (dropWhile c0_or_space url0);
          (sch, url2) = split_scheme url1;
          (nl, url3) = (if take 2 url2 = ''//''
                        then (takeWhile (\<lambda>c. \<not> netloc_delim c) (drop 2 url2),
                              dropWhile (\<lambda>c. \<not> netloc_delim c) (drop 2 url2))
                        else ([], url2));
          lb = CHR ''['' \<in> set nl;
          rb = CHR '']'' \<in> set nl
      in if (lb \<and> \<not> rb) \<or> (rb \<and> \<not> lb) then Inl ValueError
         else if lb \<and> rb \<and> \<not> check_bracketed_host lib (bracketed_host nl) then Inl ValueError
         else
           let (url4, frag) = (if CHR ''#'' \<in> set url3
                               then (takeWhile (\<lambda>c. c \<noteq> CHR ''#'') url3,
                                     drop 1 (dropWhile (\<lambda>c. c \<noteq> CHR ''#'') url3))
                               else (url3, []));
               (url5, qry) = (if CHR ''?'' \<in> set url4
                              then (takeWhile (\<lambda>c. c \<noteq> CHR ''?'') url4,
                                    drop 1 (dropWhile (\<lambda>c. c \<noteq> CHR ''?'') url4))
                              else (url4, []))
           in Inr \<lparr>scheme = sch, netloc = nl, path = url5, params = [], query = qry, fragment = frag\<rparr>)"

text \<open>\<^verbatim>\<open>_splitparams\<close>: the parameters follow the first semicolon of the last path segment.\<close>

definition splitparams :: "string \<Rightarrow> string \<times> string" where
  "splitparams url =
     (let seg = rev (takeWhile (\<lambda>c. c \<noteq> CHR ''/'') (rev url));
          k = length url - length seg - (if CHR ''/'' \<in> set url then 1 else 0);
          tail = drop k url
      in if CHR '';'' \<in> set tail
         then (take k url @ takeWhile (\<lambda>c. c \<noteq> CHR '';'') tail,
               drop 1 (dropWhile (\<lambda>c. c \<noteq> CHR '';'') tail))
         else (url, []))"

definition urlparse :: "pylib \<Rightarrow> string \<Rightarrow> exn + parse_result" where
  "urlparse lib url =
     (case urlsplit lib url of
        Inl e \<Rightarrow> Inl e
      | Inr r \<Rightarrow>
          if scheme r \<in> set uses_params \<and> CHR '';'' \<in> set (path r)
          then Inr (r\<lparr>path := fst (splitparams (path r)), params := snd (splitparams (path r))\<rparr>)
          else Inr r)"

text \<open>
  \<^verbatim>\<open>os.path.splitext(p)[1]\<close>: the text from the last dot of the last path
  segment, unless only dots precede it in that segment.
\<close>

definition splitext_ext :: "string \<Rightarrow> string" where
  "splitext_ext p =
     (let seg = rev (takeWhile (\<lambda>c. c \<noteq> CHR ''/'') (rev p));
          ext = rev (takeWhile (\<lambda>c. c \<noteq> CHR ''.'') (rev seg));
          stem = take (length seg - length ext - 1) seg
      in if CHR ''.'' \<in> set seg \<and> list_ex (\<lambda>c. c \<noteq> CHR ''.'') stem then CHR ''.'' # ext else [])"

section \<open>URLFilter (utils.py)\<close>

text \<open>
  The exclude patterns are regular expressions without operators, except the
  last one, which anchors a literal at the end of the string.  All are written
  in lower case and are searched for ignoring case (\<^verbatim>\<open>re.IGNORECASE\<close>).
\<close>

datatype pattern = Lit string | LitEnd string

definition EXCLUDE_PATTERNS :: "pattern list" where
  "EXCLUDE_PATTERNS = [Lit ''/login'', Lit ''/signin'', Lit ''/signup'', Lit ''/register'',
     Lit ''/logout'', Lit ''mailto:'', Lit ''tel:'', Lit ''javascript:'', LitEnd ''#'']"

definition DOWNLOAD_EXTENSIONS :: "string list" where
  "DOWNLOAD_EXTENSIONS = [''.pdf'', ''.zip'', ''.exe'', ''.dmg'', ''.msi'',
     ''.tar.gz'', ''.rar'', ''.doc'', ''.docx'', ''.xls'', ''.xlsx'']"

text \<open>
  \<^verbatim>\<open>re.search(pattern, s, re.IGNORECASE)\<close> for a lower-case pattern; \<^verbatim>\<open>$\<close> matches at
  the end of the string and before a newline that ends it.
\<close>

fun re_search_i :: "pattern \<Rightarrow> string \<Rightarrow> bool" where
  "re_search_i (Lit p) s = str_in p (lower s)"
| "re_search_i (LitEnd p) s =
     (endswith (lower s) p \<or> endswith (lower s) (p @ [CHR 0x0A]))"

text \<open>
  The keys of \<^verbatim>\<open>parse_qs(qs)\<close>: the decoded names of the fields that have a
  non-empty value.
\<close>

definition parse_qs_keys :: "pylib \<Rightarrow> string \<Rightarrow> string list" where
  "parse_qs_keys lib qs =
     map (\<lambda>nv. unquote_plus lib (takeWhile (\<lambda>c. c \<noteq> CHR ''='') nv))
       (filter (\<lambda>nv. drop 1 (dropWhile (\<lambda>c. c \<noteq> CHR ''='') nv) \<noteq> [])
          (split_chr CHR ''&'' qs))"

definition exclude_params :: "string list" where
  "exclude_params = [''download'', ''login'', ''logout'', ''signin'', ''signup'']"

text \<open>The body of the \<^verbatim>\<open>try\<close> block of \<^verbatim>\<open>should_scrape\<close>; \<open>Inl\<close> is a raised exception.\<close>

definition should_scrape_body :: "pylib \<Rightarrow> string \<Rightarrow> string \<Rightarrow> exn + bool" where
  "should_scrape_body lib url base_domain =
     (case urlparse lib url of
        Inl e \<Rightarrow> Inl e
      | Inr parsed \<Rightarrow>
          (case urlparse lib base_domain of
             Inl e \<Rightarrow> Inl e
           | Inr base_parsed \<Rightarrow>
               if netloc parsed \<noteq> netloc base_parsed then Inr False
               else if splitext_ext (lower (path parsed)) \<in> set DOWNLOAD_EXTENSIONS then Inr False
               else if list_ex (\<lambda>p. re_search_i p url) EXCLUDE_PATTERNS then Inr False
               else if list_ex (\<lambda>param. param \<in> set (parse_qs_keys lib (query parsed))) exclude_params
                 then Inr False
               else Inr True))"

text \<open>
  \<^verbatim>\<open>URLFilter.should_scrape\<close>: the handler of the \<^verbatim>\<open>try\<close> block logs the exception
  and returns \<^verbatim>\<open>False\<close>.  The result type keeps room for a raised exception.
\<close>

definition should_scrape :: "pylib \<Rightarrow> string \<Rightarrow> string \<Rightarrow> exn + bool" where
  "should_scrape lib url base_domain =
     (case should_scrape_body lib url base_domain of
        Inl e \<Rightarrow> Inr False
      | Inr b \<Rightarrow> Inr b)"

definition get_url_hash :: "pylib \<Rightarrow> string \<Rightarrow> string" where
  "get_url_hash lib url = md5_hexdigest lib url"

section \<open>WebScraper.get_asset_local_path (scraper.py)\<close>

definition get_asset_local_path :: "pylib \<Rightarrow> string \<Rightarrow> string \<Rightarrow> exn + string" where
  "get_asset_local_path lib url asset_type =
     (let url_hash = md5_hexdigest lib url in
      case urlparse lib url of
        Inl e \<Rightarrow> Inl e
      | Inr parsed \<Rightarrow>
          let ext0 = (if splitext_ext (path parsed) = [] then ''.bin'' else splitext_ext (path parsed));
              ext1 = (if CHR ''?'' \<in> set ext0 then takeWhile (\<lambda>c. c \<noteq> CHR ''?'') ext0 else ext0);
              ext = (if ext1 = [] \<or> length ext1 > 10
                     then (if asset_type = ''image'' then ''.jpg''
                           else if asset_type = ''css'' then ''.css''
                           else if asset_type = ''js'' then ''.js''
                           else ''.bin'')
                     else ext1);
              subdir = (if asset_type \<in> set [''image'', ''img''] then ''images''
                        else if asset_type = ''css'' then ''css''
                        else if asset_type \<in> set [''js'', ''javascript''] then ''js''
                        else if asset_type = ''font'' then ''fonts''
                        else if asset_type \<in> set [''video'', ''audio'', ''media''] then ''media''
                        else ''assets'')
          in Inr (subdir @ ''/'' @ url_hash @ ext))"

section \<open>The crawler's state and its environment\<close>

text \<open>
  The requests a run issues are kept in a log, oldest first.  The environment
  answers a request as a function of the request and of the number of requests
  issued before it, and says which files can be written.
\<close>

datatype request = PageGet string | AssetGet string | RobotsGet string

datatype http_response =
    Response (status: int) (content_type: string) (body: string)
  | Timeout
  | Failure

record world =
  serve :: "request \<Rightarrow> nat \<Rightarrow> http_response"
  write_ok :: "string \<Rightarrow> bool"

record page_record =
  pr_url :: string
  pr_content_type :: string
  pr_filepath :: "string option"
  pr_depth :: int
  pr_size :: int
  pr_domain :: string

text \<open>
  The fields of \<^verbatim>\<open>WebScraper\<close>, with the cache of its \<^verbatim>\<open>RobotsChecker\<close>, the two
  page counters of its \<^verbatim>\<open>ScraperStats\<close>, the request log and the files written.
  Request headers, cookies, the rate limiter's clock and the log file are left out.
\<close>

record scraper =
  start_url :: string
  base_domain :: string
  output_dir :: string
  max_depth :: int
  max_pages :: int
  pages_per_domain :: int
  respect_robots :: bool
  skip_assets :: bool
  visited_urls :: "string set"
  scraped_data :: "string \<rightharpoonup> page_record"
  asset_map :: "string \<rightharpoonup> string"
  failed_assets :: "string set"
  queue :: "(string \<times> int) list"
  domain_counts :: "string \<rightharpoonup> int"
  pages_scraped_count :: int
  should_stop :: bool
  robots_cache :: "string \<rightharpoonup> string"
  stats_pages_scraped :: int
  stats_pages_failed :: int
  requests :: "request list"
  files :: "string \<rightharpoonup> string"

definition page_gets :: "request list \<Rightarrow> string list" where
  "page_gets rs = concat (map (\<lambda>r. case r of PageGet u \<Rightarrow> [u] | _ \<Rightarrow> []) rs)"

definition asset_gets :: "request list \<Rightarrow> string list" where
  "asset_gets rs = concat (map (\<lambda>r. case r of AssetGet u \<Rightarrow> [u] | _ \<Rightarrow> []) rs)"

text \<open>Issuing a request: it enters the log and the environment answers it.\<close>

definition http_get :: "world \<Rightarrow> request \<Rightarrow> scraper \<Rightarrow> http_response \<times> scraper" where
  "http_get w r s = (serve w r (length (requests s)), s\<lparr>requests := requests s @ [r]\<rparr>)"

section \<open>RobotsChecker.can_fetch (utils.py)\<close>

text \<open>
  The cache maps an origin to the robots.txt text its parser was built from.
  An exception inside the outer \<^verbatim>\<open>try\<close> block answers \<^verbatim>\<open>True\<close>.
\<close>

definition robots_answer :: "pylib \<Rightarrow> string \<Rightarrow> string \<Rightarrow> string \<Rightarrow> bool" where
  "robots_answer lib txt user_agent url =
     (case rp_can_fetch lib txt user_agent url of Inl e \<Rightarrow> True | Inr b \<Rightarrow> b)"

definition can_fetch :: "pylib \<Rightarrow> world \<Rightarrow> string \<Rightarrow> string \<Rightarrow> scraper \<Rightarrow> bool \<times> scraper" where
  "can_fetch lib w url user_agent s =
     (case urlparse lib url of
        Inl e \<Rightarrow> (True, s)
      | Inr parsed \<Rightarrow>
          let base_url = scheme parsed @ ''://'' @ netloc parsed in
          (case robots_cache s base_url of
             Some txt \<Rightarrow> (robots_answer lib txt user_agent url, s)
           | None \<Rightarrow>
               let robots_url = base_url @ ''/robots.txt'';
                   (resp, s1) = http_get w (RobotsGet robots_url) s
               in (case resp of
                     Response st ct content \<Rightarrow>
                       if st = 200
                       then (robots_answer lib content user_agent url,
                             s1\<lparr>robots_cache := (robots_cache s1)(base_url \<mapsto> content)\<rparr>)
                       else (True, s1)
                   | Timeout \<Rightarrow> (True, s1)
                   | Failure \<Rightarrow> (True, s1))))"

section \<open>WebScraper.download_asset (scraper.py)\<close>

definition record_failure :: "string \<Rightarrow> scraper \<Rightarrow> string option \<times> scraper" where
  "record_failure url s = (None, s\<lparr>failed_assets := insert url (failed_assets s)\<rparr>)"

text \<open>
  The branch of a 200 response: compute the local path, write the file and
  publish the mapping.  An exception on the way reaches the outer handler, which
  records the failure.
\<close>

definition store_asset ::
  "pylib \<Rightarrow> world \<Rightarrow> string \<Rightarrow> string \<Rightarrow> string \<Rightarrow> string \<Rightarrow> scraper \<Rightarrow> string option \<times> scraper" where
  "store_asset lib w url clean_url asset_type content s =
     (case get_asset_local_path lib clean_url asset_type of
        Inl e \<Rightarrow> record_failure url s
      | Inr local_path \<Rightarrow>
          let full_path = output_dir s @ ''/'' @ local_path in
          if write_ok w full_path
          then (Some local_path,
                s\<lparr>files := (files s)(full_path \<mapsto> content),
                  asset_map := (asset_map s)(url \<mapsto> local_path)\<rparr>)
          else record_failure url s)"

text \<open>
  The call up to its first request: the two cache lookups on the URL as passed,
  then the fragment is cut off and the request for the cleaned URL is issued.
  The coroutine is suspended until the answer arrives.
\<close>

datatype pending = Done "string option" | Await string http_response

definition download_asset_begin :: "pylib \<Rightarrow> world \<Rightarrow> string \<Rightarrow> scraper \<Rightarrow> pending \<times> scraper" where
  "download_asset_begin lib w url s =
     (case asset_map s url of
        Some p \<Rightarrow> (Done (Some p), s)
      | None \<Rightarrow>
          if url \<in> failed_assets s then (Done None, s)
          else
            let clean_url = takeWhile (\<lambda>c. c \<noteq> CHR ''#'') url in
            (case urlparse lib clean_url of
               Inl e \<Rightarrow> (Done None, snd (record_failure url s))
             | Inr parsed \<Rightarrow>
                 let (resp, s1) = http_get w (AssetGet clean_url) s
                 in (Await clean_url resp, s1)))"

text \<open>The call from the answer on; a 403 is retried once with minimal headers.\<close>

definition download_asset_end ::
  "pylib \<Rightarrow> world \<Rightarrow> string \<Rightarrow> string \<Rightarrow> string \<Rightarrow> http_response \<Rightarrow> scraper \<Rightarrow> string option \<times> scraper" where
  "download_asset_end lib w url asset_type clean_url resp s =
     (case resp of
        Response st ct content \<Rightarrow>
          if st = 200 then store_asset lib w url clean_url asset_type content s
          else if st = 403 then
            (let (retry_response, s1) = http_get w (AssetGet clean_url) s
             in (case retry_response of
                   Response st' ct' content' \<Rightarrow>
                     if st' = 200 then store_asset lib w url clean_url asset_type content' s1
                     else record_failure url s1
                 | Timeout \<Rightarrow> record_failure url s1
                 | Failure \<Rightarrow> record_failure url s1))
          else record_failure url s
      | Timeout \<Rightarrow> record_failure url s
      | Failure \<Rightarrow> record_failure url s)"

definition download_asset ::
  "pylib \<Rightarrow> world \<Rightarrow> string \<Rightarrow> string \<Rightarrow> scraper \<Rightarrow> string option \<times> scraper" where
  "download_asset lib w url asset_type s =
     (case download_asset_begin lib w url s of
        (Done r, s1) \<Rightarrow> (r, s1)
      | (Await clean_url resp, s1) \<Rightarrow> download_asset_end lib w url asset_type clean_url resp s1)"

section \<open>WebScraper.rewrite_css_urls (scraper.py)\<close>

text \<open>
  The pattern of the source is the literal text \<^verbatim>\<open>urlKATEX_INLINE_OPEN\<close>, an
  optional quote, a group of one or more characters other than the two quotes
  and the closing parenthesis, an optional quote, and the literal text
  \<^verbatim>\<open>KATEX_INLINE_CLOSE\<close>.
\<close>

definition url_pattern_open :: string where
  "url_pattern_open = ''urlKATEX_INLINE_OPEN''"

definition url_pattern_close :: string where
  "url_pattern_close = ''KATEX_INLINE_CLOSE''"

definition quote_chr :: "char \<Rightarrow> bool" where
  "quote_chr c \<longleftrightarrow> c = CHR 0x27 \<or> c = CHR 0x22"

definition group_chr :: "char \<Rightarrow> bool" where
  "group_chr c \<longleftrightarrow> c \<noteq> CHR 0x27 \<and> c \<noteq> CHR 0x22 \<and> c \<noteq> CHR '')''"

text \<open>
  The group is greedy: the matcher tries the longest run first and gives back
  one character at a time until the rest of the pattern matches.  The result is
  the group and the number of characters matched from the start of the group.
\<close>

fun match_group :: "nat \<Rightarrow> string \<Rightarrow> (string \<times> nat) option" where
  "match_group 0 t = None"
| "match_group (Suc n) t =
     (let after = drop (Suc n) t in
      if after \<noteq> [] \<and> quote_chr (hd after) \<and> startswith (tl after) url_pattern_close
        then Some (take (Suc n) t, Suc n + 1 + length url_pattern_close)
      else if startswith after url_pattern_close
        then Some (take (Suc n) t, Suc n + length url_pattern_close)
      else match_group n t)"

definition match_rest :: "string \<Rightarrow> (string \<times> nat) option" where
  "match_rest t = match_group (length (takeWhile group_chr t)) t"

text \<open>A match of the whole pattern at the start of \<open>s\<close>: the group and the match's length.\<close>

definition match_here :: "string \<Rightarrow> (string \<times> nat) option" where
  "match_here s =
     (if startswith s url_pattern_open then
        (let t = drop (length url_pattern_open) s;
             quoted = (if t \<noteq> [] \<and> quote_chr (hd t) then match_rest (tl t) else None)
         in case quoted of
              Some (g, n) \<Rightarrow> Some (g, length url_pattern_open + 1 + n)
            | None \<Rightarrow>
                (case match_rest t of
                   Some (g, n) \<Rightarrow> Some (g, length url_pattern_open + n)
                 | None \<Rightarrow> None))
      else None)"

text \<open>
  \<^verbatim>\<open>re.findall\<close>: the groups of the matches found from left to right, the search
  going on behind each match.  The counter holds the characters of the last
  match still to be skipped.
\<close>

fun findall_from :: "nat \<Rightarrow> string \<Rightarrow> string list" where
  "findall_from k [] = []"
| "findall_from (Suc k) (c # cs) = findall_from k cs"
| "findall_from 0 (c # cs) =
     (case match_here (c # cs) of
        Some (g, n) \<Rightarrow> g # findall_from (n - 1) cs
      | None \<Rightarrow> findall_from 0 cs)"

definition findall_url_pattern :: "string \<Rightarrow> string list" where
  "findall_url_pattern css = findall_from 0 css"

definition css_asset_type :: "string \<Rightarrow> string" where
  "css_asset_type url =
     (if str_in ''.woff'' url \<or> str_in ''.ttf'' url \<or> str_in ''.eot'' url \<or> str_in ''.otf'' url
      then ''font'' else ''image'')"

definition replace_css_refs :: "string \<Rightarrow> string \<Rightarrow> string \<Rightarrow> string" where
  "replace_css_refs css url relative_path =
     (let css1 = replace css (''url('' @ url @ '')'') (''url('' @ relative_path @ '')'');
          css2 = replace css1 (''url('' @ [CHR 0x22] @ url @ [CHR 0x22] @ '')'')
                              (''url('' @ [CHR 0x22] @ relative_path @ [CHR 0x22] @ '')'');
          css3 = replace css2 (''url('' @ [CHR 0x27] @ url @ [CHR 0x27] @ '')'')
                              (''url('' @ [CHR 0x22] @ relative_path @ [CHR 0x22] @ '')'')
      in css3)"

text \<open>
  The loop over the URLs found.  An exception of \<^verbatim>\<open>urljoin\<close> leaves the function;
  the downloads made before it stay in the state.
\<close>

fun rewrite_css_loop ::
  "pylib \<Rightarrow> world \<Rightarrow> string \<Rightarrow> string list \<Rightarrow> string \<Rightarrow> scraper \<Rightarrow> (exn + string) \<times> scraper" where
  "rewrite_css_loop lib w base_url [] css s = (Inr css, s)"
| "rewrite_css_loop lib w base_url (url # urls) css s =
     (if startswith url ''data:'' then rewrite_css_loop lib w base_url urls css s
      else
        (case urljoin lib base_url url of
           Inl e \<Rightarrow> (Inl e, s)
         | Inr absolute_url \<Rightarrow>
             (case download_asset lib w absolute_url (css_asset_type url) s of
                (Some local_path, s1) \<Rightarrow>
                  if local_path \<noteq> []
                  then rewrite_css_loop lib w base_url urls
                         (replace_css_refs css url (''../'' @ local_path)) s1
                  else rewrite_css_loop lib w base_url urls css s1
              | (None, s1) \<Rightarrow> rewrite_css_loop lib w base_url urls css s1)))"

definition rewrite_css_urls ::
  "pylib \<Rightarrow> world \<Rightarrow> string \<Rightarrow> string \<Rightarrow> scraper \<Rightarrow> (exn + string) \<times> scraper" where
  "rewrite_css_urls lib w css_content base_url s =
     rewrite_css_loop lib w base_url (findall_url_pattern css_content) css_content s"

section \<open>WebScraper.rewrite_html_urls (scraper.py)\<close>

definition get_attr :: "element \<Rightarrow> string \<Rightarrow> string option" where
  "get_attr e a = map_of (attrs e) a"

fun update_attr :: "string \<Rightarrow> string \<Rightarrow> (string \<times> string) list \<Rightarrow> (string \<times> string) list" where
  "update_attr a v [] = [(a, v)]"
| "update_attr a v ((k, x) # kvs) = (if k = a then (k, v) # kvs else (k, x) # update_attr a v kvs)"

definition set_attr :: "element \<Rightarrow> string \<Rightarrow> string \<Rightarrow> element" where
  "set_attr e a v = Element (tag e) (update_attr a v (attrs e)) (text_of e)"

text \<open>Python's truth value of an optional string: present and not empty.\<close>

definition truthy :: "string option \<Rightarrow> bool" where
  "truthy v \<longleftrightarrow> (case v of None \<Rightarrow> False | Some x \<Rightarrow> x \<noteq> [])"

text \<open>The tokens of a multi-valued attribute such as \<^verbatim>\<open>rel\<close>.\<close>

definition tokens :: "string \<Rightarrow> string list" where
  "tokens v = filter (\<lambda>t. t \<noteq> []) (split_chr CHR '' '' (map (\<lambda>c. if is_space c then CHR '' '' else c) v))"

text \<open>\<^verbatim>\<open>part.strip().split(' ')\<close> and its first item.\<close>

definition part_items :: "string \<Rightarrow> string list" where
  "part_items part = split_chr CHR '' '' (strip part)"

definition first_item :: "string \<Rightarrow> string" where
  "first_item part = takeWhile (\<lambda>c. c \<noteq> CHR '' '') (strip part)"

definition srcset_urls :: "string \<Rightarrow> string list" where
  "srcset_urls v = filter (\<lambda>u. u \<noteq> []) (map first_item (split_chr CHR '','' v))"

definition image_attrs :: "string list" where
  "image_attrs = [''src'', ''srcset'', ''data-src'', ''data-srcset'', ''data-lazy-src'']"

text \<open>
  A reference found in the page: the index of its element, the attribute, the
  URL as written, and the asset type.  An entry of \<^verbatim>\<open>asset_tasks\<close> adds the absolute URL.
\<close>

type_synonym candidate = "nat \<times> string \<times> string \<times> string"
type_synonym asset_task = "nat \<times> string \<times> string \<times> string \<times> string"

definition image_candidates :: "soup \<Rightarrow> candidate list" where
  "image_candidates sp =
     concat (map (\<lambda>(i, e).
       if tag e \<in> set [''img'', ''source'', ''picture'']
       then concat (map (\<lambda>attr.
              if truthy (get_attr e attr)
              then map (\<lambda>u. (i, attr, u, ''image''))
                     (filter (\<lambda>u. u \<noteq> [] \<and> \<not> startswith u ''data:'')
                        (if str_in ''srcset'' attr then srcset_urls (the (get_attr e attr))
                         else [the (get_attr e attr)]))
              else []) image_attrs)
       else []) (enumerate 0 sp))"

definition single_candidates ::
  "(element \<Rightarrow> bool) \<Rightarrow> string \<Rightarrow> string \<Rightarrow> soup \<Rightarrow> candidate list" where
  "single_candidates sel attr asset_type sp =
     concat (map (\<lambda>(i, e).
       if sel e \<and> truthy (get_attr e attr) \<and> \<not> startswith (the (get_attr e attr)) ''data:''
       then [(i, attr, the (get_attr e attr), asset_type)]
       else []) (enumerate 0 sp))"

definition is_stylesheet_link :: "element \<Rightarrow> bool" where
  "is_stylesheet_link e \<longleftrightarrow>
     tag e = ''link'' \<and> (case get_attr e ''rel'' of
                            None \<Rightarrow> False
                          | Some r \<Rightarrow> ''stylesheet'' \<in> set (tokens r))"

definition is_font_link :: "element \<Rightarrow> bool" where
  "is_font_link e \<longleftrightarrow>
     tag e = ''link'' \<and> (case get_attr e ''rel'' of
                            None \<Rightarrow> False
                          | Some r \<Rightarrow> list_ex (str_in ''font'') (tokens r))"

definition all_candidates :: "soup \<Rightarrow> candidate list" where
  "all_candidates sp =
     image_candidates sp
     @ single_candidates is_stylesheet_link ''href'' ''css'' sp
     @ single_candidates (\<lambda>e. tag e = ''script'') ''src'' ''js'' sp
     @ single_candidates is_font_link ''href'' ''font'' sp
     @ single_candidates (\<lambda>e. tag e \<in> set [''video'', ''audio'', ''source'']) ''src'' ''media'' sp"

fun make_tasks :: "pylib \<Rightarrow> string \<Rightarrow> candidate list \<Rightarrow> exn + asset_task list" where
  "make_tasks lib base_url [] = Inr []"
| "make_tasks lib base_url ((i, attr, url, asset_type) # cs) =
     (case urljoin lib base_url url of
        Inl e \<Rightarrow> Inl e
      | Inr absolute_url \<Rightarrow>
          (case make_tasks lib base_url cs of
             Inl e \<Rightarrow> Inl e
           | Inr ts \<Rightarrow> Inr ((i, attr, url, absolute_url, asset_type) # ts)))"

text \<open>The text of every \<^verbatim>\<open>style\<close> element goes through the CSS rewriter.\<close>

fun rewrite_style_tags ::
  "pylib \<Rightarrow> world \<Rightarrow> string \<Rightarrow> soup \<Rightarrow> scraper \<Rightarrow> (exn + soup) \<times> scraper" where
  "rewrite_style_tags lib w base_url [] s = (Inr [], s)"
| "rewrite_style_tags lib w base_url (e # es) s =
     (case (if tag e = ''style'' \<and> truthy (text_of e)
            then (case rewrite_css_urls lib w (the (text_of e)) base_url s of
                    (Inl x, s1) \<Rightarrow> (Inl x, s1)
                  | (Inr css, s1) \<Rightarrow> (Inr (Element (tag e) (attrs e) (Some css)), s1))
            else (Inr e, s)) of
        (Inl x, s1) \<Rightarrow> (Inl x, s1)
      | (Inr e', s1) \<Rightarrow>
          (case rewrite_style_tags lib w base_url es s1 of
             (Inl x, s2) \<Rightarrow> (Inl x, s2)
           | (Inr es', s2) \<Rightarrow> (Inr (e' # es'), s2)))"

text \<open>So does every \<^verbatim>\<open>style\<close> attribute.\<close>

fun rewrite_inline_styles ::
  "pylib \<Rightarrow> world \<Rightarrow> string \<Rightarrow> soup \<Rightarrow> scraper \<Rightarrow> (exn + soup) \<times> scraper" where
  "rewrite_inline_styles lib w base_url [] s = (Inr [], s)"
| "rewrite_inline_styles lib w base_url (e # es) s =
     (case (case get_attr e ''style'' of
              None \<Rightarrow> (Inr e, s)
            | Some v \<Rightarrow>
                (case rewrite_css_urls lib w v base_url s of
                   (Inl x, s1) \<Rightarrow> (Inl x, s1)
                 | (Inr css, s1) \<Rightarrow> (Inr (set_attr e ''style'' css), s1))) of
        (Inl x, s1) \<Rightarrow> (Inl x, s1)
      | (Inr e', s1) \<Rightarrow>
          (case rewrite_inline_styles lib w base_url es s1 of
             (Inl x, s2) \<Rightarrow> (Inl x, s2)
           | (Inr es', s2) \<Rightarrow> (Inr (e' # es'), s2)))"

text \<open>The new value of a \<^verbatim>\<open>srcset\<close> attribute after a successful download.\<close>

definition rewrite_srcset :: "string \<Rightarrow> string \<Rightarrow> string \<Rightarrow> string" where
  "rewrite_srcset v original_url relative_path =
     join '', '' (map (\<lambda>part.
        join '' '' (case part_items part of
                      [] \<Rightarrow> []
                    | item # items \<Rightarrow>
                        if item = original_url then relative_path # items else item # items))
        (split_chr CHR '','' v))"

text \<open>
  The loop that downloads the assets and updates the attributes.  The element
  and the attribute of an entry exist, since the entry was built from them.
\<close>

fun apply_tasks ::
  "pylib \<Rightarrow> world \<Rightarrow> asset_task list \<Rightarrow> soup \<Rightarrow> scraper \<Rightarrow> soup \<times> scraper" where
  "apply_tasks lib w [] sp s = (sp, s)"
| "apply_tasks lib w ((i, attr, original_url, absolute_url, asset_type) # ts) sp s =
     (case download_asset lib w absolute_url asset_type s of
        (local_path, s1) \<Rightarrow>
          let element = sp ! i;
              sp1 =
                (if truthy local_path then
                   (let relative_path = ''../'' @ the local_path in
                    if str_in ''srcset'' attr
                    then sp[i := set_attr element attr
                                   (rewrite_srcset (the (get_attr element attr)) original_url relative_path)]
                    else sp[i := set_attr element attr relative_path])
                 else if \<not> (startswith original_url ''http://'' \<or> startswith original_url ''https://''
                              \<or> startswith original_url ''//'')
                   then sp[i := set_attr element attr absolute_url]
                 else sp)
          in apply_tasks lib w ts sp1 s1)"

definition skip_href :: "string \<Rightarrow> bool" where
  "skip_href href \<longleftrightarrow>
     startswith href ''#'' \<or> startswith href ''javascript:'' \<or> startswith href ''mailto:''
     \<or> startswith href ''tel:''"

text \<open>Links to pages already visited point to the local file; the others are made absolute.\<close>

fun rewrite_anchors :: "pylib \<Rightarrow> string \<Rightarrow> string set \<Rightarrow> soup \<Rightarrow> exn + soup" where
  "rewrite_anchors lib base_url visited [] = Inr []"
| "rewrite_anchors lib base_url visited (a # es) =
     (case (case get_attr a ''href'' of
              None \<Rightarrow> Inr a
            | Some href \<Rightarrow>
                if tag a = ''a'' \<and> \<not> skip_href href
                then (case urljoin lib base_url href of
                        Inl x \<Rightarrow> Inl x
                      | Inr absolute_url \<Rightarrow>
                          if absolute_url \<in> visited
                          then Inr (set_attr a ''href'' (get_url_hash lib absolute_url @ ''.html''))
                          else Inr (set_attr a ''href'' absolute_url))
                else Inr a) of
        Inl x \<Rightarrow> Inl x
      | Inr a' \<Rightarrow>
          (case rewrite_anchors lib base_url visited es of
             Inl x \<Rightarrow> Inl x
           | Inr es' \<Rightarrow> Inr (a' # es')))"

definition rewrite_html_urls ::
  "pylib \<Rightarrow> world \<Rightarrow> string \<Rightarrow> string \<Rightarrow> scraper \<Rightarrow> (exn + string) \<times> scraper" where
  "rewrite_html_urls lib w html base_url s =
     (let sp = parse_html lib html in
      case make_tasks lib base_url (all_candidates sp) of
        Inl x \<Rightarrow> (Inl x, s)
      | Inr asset_tasks \<Rightarrow>
          (case rewrite_style_tags lib w base_url sp s of
             (Inl x, s1) \<Rightarrow> (Inl x, s1)
           | (Inr sp1, s1) \<Rightarrow>
               (case rewrite_inline_styles lib w base_url sp1 s1 of
                  (Inl x, s2) \<Rightarrow> (Inl x, s2)
                | (Inr sp2, s2) \<Rightarrow>
                    (case (if \<not> skip_assets s2 then apply_tasks lib w asset_tasks sp2 s2
                           else (sp2, s2)) of
                       (sp3, s3) \<Rightarrow>
                         (case rewrite_anchors lib base_url (visited_urls s3) sp3 of
                            Inl x \<Rightarrow> (Inl x, s3)
                          | Inr sp4 \<Rightarrow> (Inr (render_html lib sp4), s3))))))"

section \<open>The page worker (scraper.py)\<close>

definition add_failed :: "scraper \<Rightarrow> scraper" where
  "add_failed s = s\<lparr>stats_pages_failed := stats_pages_failed s + 1\<rparr>"

text \<open>
  \<^verbatim>\<open>fetch_page\<close>: the robots check, then the request.  A timeout or another
  exception counts the page as failed; a denial by robots.txt and a status other
  than 200 return \<^verbatim>\<open>None\<close> without counting.
\<close>

definition fetch_page ::
  "pylib \<Rightarrow> world \<Rightarrow> string \<Rightarrow> scraper \<Rightarrow> (string \<times> string) option \<times> scraper" where
  "fetch_page lib w url s =
     (case (if respect_robots s then can_fetch lib w url ''WebArchiver/1.0'' s else (True, s)) of
        (allowed, s1) \<Rightarrow>
          if \<not> allowed then (None, s1)
          else
            (case urlparse lib url of
               Inl e \<Rightarrow> (None, add_failed s1)
             | Inr parsed \<Rightarrow>
                 (case http_get w (PageGet url) s1 of
                    (Response st ct content, s2) \<Rightarrow>
                      if st = 200 then (Some (content, ct), s2) else (None, s2)
                  | (Timeout, s2) \<Rightarrow> (None, add_failed s2)
                  | (Failure, s2) \<Rightarrow> (None, add_failed s2))))"

text \<open>\<^verbatim>\<open>check_limits\<close>, run under \<^verbatim>\<open>stop_lock\<close>.\<close>

definition check_limits :: "pylib \<Rightarrow> string \<Rightarrow> scraper \<Rightarrow> (exn + bool) \<times> scraper" where
  "check_limits lib url s =
     (if pages_scraped_count s \<ge> max_pages s then (Inr False, s\<lparr>should_stop := True\<rparr>)
      else
        (case urlparse lib url of
           Inl e \<Rightarrow> (Inl e, s)
         | Inr parsed \<Rightarrow>
             let domain_count = (case domain_counts s (netloc parsed) of None \<Rightarrow> 0 | Some c \<Rightarrow> c)
             in if domain_count \<ge> pages_per_domain s then (Inr False, s) else (Inr True, s)))"

definition save_page_content ::
  "pylib \<Rightarrow> world \<Rightarrow> string \<Rightarrow> string \<Rightarrow> string \<Rightarrow> scraper \<Rightarrow> string option \<times> scraper" where
  "save_page_content lib w url content ct s =
     (let url_hash = get_url_hash lib url;
          filepath =
            (if str_in ''html'' ct \<or> str_in ''text'' ct
             then output_dir s @ ''/html/'' @ url_hash @ ''.html''
             else output_dir s @ ''/html/'' @ url_hash
                    @ (if str_in ''json'' ct then ''.json''
                       else if str_in ''xml'' ct then ''.xml'' else ''.txt''))
      in if write_ok w filepath
         then (Some filepath, s\<lparr>files := (files s)(filepath \<mapsto> content)\<rparr>)
         else (None, s))"

text \<open>
  \<^verbatim>\<open>extract_urls\<close>: the links of the \<^verbatim>\<open>a\<close> and \<^verbatim>\<open>area\<close> elements that pass the URL
  filter.  The source collects them in a set; here they are kept without
  repetition in document order.  An exception ends the loop with the URLs
  collected so far.
\<close>

fun extract_loop :: "pylib \<Rightarrow> string \<Rightarrow> string \<Rightarrow> string list \<Rightarrow> string list \<Rightarrow> string list" where
  "extract_loop lib base_url bd [] urls = urls"
| "extract_loop lib base_url bd (url # rest) urls =
     (case urljoin lib base_url url of
        Inl e \<Rightarrow> urls
      | Inr absolute_url \<Rightarrow>
          (case should_scrape lib absolute_url bd of
             Inl e \<Rightarrow> urls
           | Inr ok \<Rightarrow>
               extract_loop lib base_url bd rest
                 (if ok \<and> absolute_url \<notin> set urls then urls @ [absolute_url] else urls)))"

definition extract_urls :: "pylib \<Rightarrow> string \<Rightarrow> string \<Rightarrow> string \<Rightarrow> string list" where
  "extract_urls lib html base_url bd =
     extract_loop lib base_url bd
       (concat (map (\<lambda>e. if tag e \<in> set [''a'', ''area''] \<and> truthy (get_attr e ''href'')
                          then [the (get_attr e ''href'')] else [])
                    (parse_html lib html)))
       []"

text \<open>
  \<^verbatim>\<open>process_url\<close> up to the call of \<^verbatim>\<open>fetch_page\<close>: the stop signal, the visited set,
  the depth, the limits; an admitted URL enters the visited set.
\<close>

definition process_url_admit :: "pylib \<Rightarrow> string \<Rightarrow> int \<Rightarrow> scraper \<Rightarrow> (exn + bool) \<times> scraper" where
  "process_url_admit lib url depth s =
     (if should_stop s then (Inr False, s)
      else if url \<in> visited_urls s \<or> depth > max_depth s then (Inr False, s)
      else
        (case check_limits lib url s of
           (Inl e, s1) \<Rightarrow> (Inl e, s1)
         | (Inr ok, s1) \<Rightarrow>
             if \<not> ok then (Inr False, s1)
             else (Inr True, s1\<lparr>visited_urls := insert url (visited_urls s1)\<rparr>)))"

definition enqueue :: "string list \<Rightarrow> int \<Rightarrow> scraper \<Rightarrow> scraper" where
  "enqueue new_urls depth s =
     s\<lparr>queue := queue s @
          map (\<lambda>u. (u, depth + 1))
              (filter (\<lambda>u. u \<notin> visited_urls s \<and> \<not> should_stop s) new_urls)\<rparr>"

text \<open>The counter update of \<^verbatim>\<open>process_url\<close>, run under \<^verbatim>\<open>stop_lock\<close>.\<close>

definition update_counters :: "scraper \<Rightarrow> scraper" where
  "update_counters s =
     (let s1 = s\<lparr>pages_scraped_count := pages_scraped_count s + 1\<rparr>
      in if pages_scraped_count s1 \<ge> max_pages s1 then s1\<lparr>should_stop := True\<rparr> else s1)"

definition count_domain :: "string \<Rightarrow> scraper \<Rightarrow> scraper" where
  "count_domain domain s =
     s\<lparr>domain_counts := (domain_counts s)
          (domain \<mapsto> (case domain_counts s domain of None \<Rightarrow> 0 | Some c \<Rightarrow> c) + 1)\<rparr>"

text \<open>\<^verbatim>\<open>ScraperStats.add_page\<close>\<close>

definition add_page :: "scraper \<Rightarrow> scraper" where
  "add_page s = s\<lparr>stats_pages_scraped := stats_pages_scraped s + 1\<rparr>"

text \<open>
  The end of \<^verbatim>\<open>process_url\<close>: save the content, store the page's record with the
  path that \<^verbatim>\<open>save_page_content\<close> returned, and queue the new URLs.
\<close>

definition store_page ::
  "pylib \<Rightarrow> world \<Rightarrow> string \<Rightarrow> int \<Rightarrow> string \<Rightarrow> string \<Rightarrow> string \<Rightarrow> scraper \<Rightarrow> scraper" where
  "store_page lib w url depth ct domain content s =
     (case save_page_content lib w url content ct s of
        (filepath, s1) \<Rightarrow>
          let s2 = s1\<lparr>scraped_data := (scraped_data s1)
                 (url \<mapsto> \<lparr>pr_url = url, pr_content_type = ct, pr_filepath = filepath,
                           pr_depth = depth, pr_size = int (length content),
                           pr_domain = domain\<rparr>)\<rparr>
          in if str_in ''html'' ct \<and> \<not> should_stop s2
             then enqueue (extract_urls lib content url (base_domain s2)) depth s2
             else s2)"

text \<open>
  \<^verbatim>\<open>process_url\<close> from the call of \<^verbatim>\<open>fetch_page\<close> on: the counters, the rewriting,
  the file, the page's record, the new URLs.  The result holds the exception
  that left the function, if any.
\<close>

definition process_url_fetch ::
  "pylib \<Rightarrow> world \<Rightarrow> string \<Rightarrow> int \<Rightarrow> scraper \<Rightarrow> exn option \<times> scraper" where
  "process_url_fetch lib w url depth s =
     (case fetch_page lib w url s of
        (None, s1) \<Rightarrow> (None, s1)
      | (Some (content, ct), s1) \<Rightarrow>
          let s2 = update_counters s1
          in (case urlparse lib url of
                Inl e \<Rightarrow> (Some e, s2)
              | Inr parsed \<Rightarrow>
                  let s3 = add_page (count_domain (netloc parsed) s2)
                  in (case (if str_in ''html'' ct then rewrite_html_urls lib w content url s3
                            else (Inr content, s3)) of
                        (Inl e, s4) \<Rightarrow> (Some e, s4)
                      | (Inr content', s4) \<Rightarrow>
                          (None, store_page lib w url depth ct (netloc parsed) content' s4))))"

definition process_url ::
  "pylib \<Rightarrow> world \<Rightarrow> string \<Rightarrow> int \<Rightarrow> scraper \<Rightarrow> exn option \<times> scraper" where
  "process_url lib w url depth s =
     (case process_url_admit lib url depth s of
        (Inl e, s1) \<Rightarrow> (Some e, s1)
      | (Inr admitted, s1) \<Rightarrow>
          if admitted then process_url_fetch lib w url depth s1 else (None, s1))"

section \<open>Workers and the run\<close>

text \<open>
  A worker is between two queue items, or it is suspended inside \<^verbatim>\<open>fetch_page\<close>
  for a URL it has admitted.  The coroutines run on one event loop: a worker
  runs alone from one suspension to the next.  One step of worker \<open>i\<close> takes an
  item from the queue and runs \<^verbatim>\<open>process_url\<close> up to the fetch, or takes the
  fetch's answer and runs \<^verbatim>\<open>process_url\<close> to its end.
\<close>

datatype worker_state = Idle | Fetching string int

record system =
  shared :: scraper
  workers :: "worker_state list"

definition worker_step :: "pylib \<Rightarrow> world \<Rightarrow> nat \<Rightarrow> system \<Rightarrow> system" where
  "worker_step lib w i sys =
     (if i \<ge> length (workers sys) then sys
      else
        (case workers sys ! i of
           Idle \<Rightarrow>
             (if should_stop (shared sys) then sys
              else
                (case queue (shared sys) of
                   [] \<Rightarrow> sys
                 | (url, depth) # q \<Rightarrow>
                     (case process_url_admit lib url depth ((shared sys)\<lparr>queue := q\<rparr>) of
                        (Inr True, s1) \<Rightarrow>
                          \<lparr>shared = s1, workers = (workers sys)[i := Fetching url depth]\<rparr>
                      | (r, s1) \<Rightarrow> sys\<lparr>shared := s1\<rparr>)))
         | Fetching url depth \<Rightarrow>
             \<lparr>shared = snd (process_url_fetch lib w url depth (shared sys)),
              workers = (workers sys)[i := Idle]\<rparr>))"

text \<open>A schedule names the worker that runs at each step.\<close>

definition run_schedule :: "pylib \<Rightarrow> world \<Rightarrow> nat list \<Rightarrow> system \<Rightarrow> system" where
  "run_schedule lib w sched sys = foldl (\<lambda>sy i. worker_step lib w i sy) sys sched"

text \<open>The constructor, and the start of \<^verbatim>\<open>run\<close>: the seed enters the queue at depth 0.\<close>

definition new_scraper ::
  "pylib \<Rightarrow> string \<Rightarrow> string \<Rightarrow> int \<Rightarrow> int \<Rightarrow> int \<Rightarrow> bool \<Rightarrow> bool \<Rightarrow> exn + scraper" where
  "new_scraper lib url out depth_cap page_cap domain_cap robots no_assets =
     (case urlparse lib url of
        Inl e \<Rightarrow> Inl e
      | Inr parsed \<Rightarrow>
          Inr \<lparr>start_url = url, base_domain = scheme parsed @ ''://'' @ netloc parsed,
               output_dir = out, max_depth = depth_cap, max_pages = page_cap,
               pages_per_domain = domain_cap, respect_robots = robots, skip_assets = no_assets,
               visited_urls = {}, scraped_data = Map.empty, asset_map = Map.empty,
               failed_assets = {}, queue = [], domain_counts = Map.empty,
               pages_scraped_count = 0, should_stop = False, robots_cache = Map.empty,
               stats_pages_scraped = 0, stats_pages_failed = 0, requests = [],
               files = Map.empty\<rparr>)"

definition start_run :: "nat \<Rightarrow> scraper \<Rightarrow> system" where
  "start_run max_workers s =
     \<lparr>shared = s\<lparr>queue := queue s @ [(start_url s, 0)]\<rparr>, workers = replicate max_workers Idle\<rparr>"

text \<open>The fields of \<^verbatim>\<open>metadata.json\<close> that the properties below speak about.\<close>

record manifest =
  m_pages_scraped :: int
  m_max_pages_limit :: int
  m_pages :: "string \<rightharpoonup> page_record"
  m_asset_map :: "string \<rightharpoonup> string"
  m_failed_assets :: "string set"

definition emit_manifest :: "scraper \<Rightarrow> manifest" where
  "emit_manifest s =
     \<lparr>m_pages_scraped = pages_scraped_count s, m_max_pages_limit = max_pages s,
      m_pages = scraped_data s, m_asset_map = asset_map s, m_failed_assets = failed_assets s\<rparr>"

section \<open>Example library values, pages and servers\<close>

text \<open>
  The values of the library functions at the inputs of the examples below:
  the MD5 digests and the joined URLs are those that Python computes; the
  robots.txt text forbids \<^verbatim>\<open>/private\<close> to every agent; each page is given with the
  elements its parser yields and the text its printer gives back.
\<close>

definition ex_md5 :: "(string \<times> string) list" where
  "ex_md5 =
     [(''http://h/a'', ''2ce7276502725c281e6d5ae4e55aed55''),
      (''http://h/b'', ''9eb7218839b91c098ab0e2d8c080c379''),
      (''http://h/c'', ''7b453791b85f9d698b6c8599731340ab''),
      (''http://h/p'', ''48148c8a610106cad34265b77cac2479''),
      (''http://h/private'', ''327d9b735ee306396f71392c662c2eba''),
      (''http://h/style'', ''4ee504719884a7d3d8e71d3439b851ad''),
      (''http://h/a.png'', ''9ef778804fd929ca71a038547aea542b''),
      (''http://h/b.png'', ''e4938a6a6b2137221031c06709fb3b54''),
      (''http://h/s.svg'', ''cf63f22e1283165d44932f71bb57fa7e''),
      (''http://h/logo.png'', ''77892f63d34c051137f1fd14a0fc706c'')]"

definition ex_urljoin :: "((string \<times> string) \<times> string) list" where
  "ex_urljoin =
     [((''http://h/a'', ''/private''), ''http://h/private''),
      ((''http://h/a'', ''b''), ''http://h/b''),
      ((''http://h/a'', ''c''), ''http://h/c''),
      ((''http://h/p'', ''a.png''), ''http://h/a.png''),
      ((''http://h/p'', ''b.png''), ''http://h/b.png'')]"

definition ex_robots_txt :: string where
  "ex_robots_txt = ''User-agent: *'' @ [CHR 0x0A] @ ''Disallow: /private'' @ [CHR 0x0A]"

text \<open>The seed page of the robots scenario, before and after rewriting.\<close>

definition page_private_link :: string where
  "page_private_link = ''<html><body><a href=\"/private\">p</a></body></html>''"

definition page_private_link_rewritten :: string where
  "page_private_link_rewritten = ''<html><body><a href=\"http://h/private\">p</a></body></html>''"

definition soup_link :: "string \<Rightarrow> soup" where
  "soup_link href =
     [Element ''html'' [] (Some ''p''), Element ''body'' [] (Some ''p''),
      Element ''a'' [(''href'', href)] (Some ''p'')]"

text \<open>A seed page with two links, a page without links, and a page with a \<^verbatim>\<open>srcset\<close>.\<close>

definition page_two_links :: string where
  "page_two_links = ''<html><body><a href=\"b\">b</a><a href=\"c\">c</a></body></html>''"

definition page_two_links_rewritten :: string where
  "page_two_links_rewritten =
     ''<html><body><a href=\"http://h/b\">b</a><a href=\"http://h/c\">c</a></body></html>''"

definition soup_two_links :: "string \<Rightarrow> string \<Rightarrow> soup" where
  "soup_two_links href1 href2 =
     [Element ''html'' [] None, Element ''body'' [] None,
      Element ''a'' [(''href'', href1)] (Some ''b''), Element ''a'' [(''href'', href2)] (Some ''c'')]"

definition page_plain :: string where
  "page_plain = ''<html><body><p>x</p></body></html>''"

definition soup_plain :: soup where
  "soup_plain =
     [Element ''html'' [] (Some ''x''), Element ''body'' [] (Some ''x''), Element ''p'' [] (Some ''x'')]"

definition page_srcset :: string where
  "page_srcset = ''<html><body><img srcset=\"a.png 1x, b.png 2x\"/></body></html>''"

definition soup_srcset :: "string \<Rightarrow> soup" where
  "soup_srcset v =
     [Element ''html'' [] None, Element ''body'' [] None, Element ''img'' [(''srcset'', v)] None]"

definition page_srcset_of :: "string \<Rightarrow> string" where
  "page_srcset_of v = ''<html><body><img srcset=\"'' @ v @ ''\"/></body></html>''"

definition ex_parse :: "(string \<times> soup) list" where
  "ex_parse =
     [(page_private_link, soup_link ''/private''),
      (page_private_link_rewritten, soup_link ''http://h/private''),
      (page_two_links, soup_two_links ''b'' ''c''),
      (page_two_links_rewritten, soup_two_links ''http://h/b'' ''http://h/c''),
      (page_plain, soup_plain),
      (page_srcset, soup_srcset ''a.png 1x, b.png 2x'')]"

definition ex_render :: "soup \<Rightarrow> string" where
  "ex_render sp =
     (case sp of
        [Element h [] t1, Element b [] t2, Element i [(a, v)] t3] \<Rightarrow>
          if i = ''img'' then page_srcset_of v
          else ''<html><body><a href=\"'' @ v @ ''\">p</a></body></html>''
      | [Element h [] t1, Element b [] t2, Element a1 [(k1, v1)] t3, Element a2 [(k2, v2)] t4] \<Rightarrow>
          ''<html><body><a href=\"'' @ v1 @ ''\">b</a><a href=\"'' @ v2 @ ''\">c</a></body></html>''
      | _ \<Rightarrow> page_plain)"

definition ex_lib :: pylib where
  "ex_lib =
     \<lparr>md5_hexdigest = (\<lambda>u. case map_of ex_md5 u of Some d \<Rightarrow> d | None \<Rightarrow> []),
      urljoin = (\<lambda>b u. case map_of ex_urljoin (b, u) of Some a \<Rightarrow> Inr a | None \<Rightarrow> Inr u),
      unquote_plus = (\<lambda>x. x),
      check_bracketed_host = (\<lambda>h. h = ''::1''),
      rp_can_fetch = (\<lambda>txt agent u. Inr (\<not> (txt = ex_robots_txt \<and> u = ''http://h/private''))),
      parse_html = (\<lambda>h. case map_of ex_parse h of Some sp \<Rightarrow> sp | None \<Rightarrow> []),
      render_html = ex_render\<rparr>"

text \<open>A server given by a table of answers; any other request gets a 404.  Every file can be written.\<close>

definition site :: "(request \<times> http_response) list \<Rightarrow> world" where
  "site tbl =
     \<lparr>serve = (\<lambda>r n. case map_of tbl r of Some a \<Rightarrow> a | None \<Rightarrow> Response 404 [] []),
      write_ok = (\<lambda>f. True)\<rparr>"

definition world_robots_deny :: world where
  "world_robots_deny =
     site [(PageGet ''http://h/a'', Response 200 ''text/html'' page_private_link),
           (PageGet ''http://h/private'', Response 200 ''text/html'' page_plain),
           (RobotsGet ''http://h/robots.txt'', Response 200 ''text/plain'' ex_robots_txt)]"

definition world_three_pages :: world where
  "world_three_pages =
     site [(PageGet ''http://h/a'', Response 200 ''text/html'' page_two_links),
           (PageGet ''http://h/b'', Response 200 ''text/html'' page_plain),
           (PageGet ''http://h/c'', Response 200 ''text/html'' page_plain)]"

text \<open>The crawler of the examples: seed \<^verbatim>\<open>http://h/a\<close>, output under \<^verbatim>\<open>out\<close>.\<close>

definition ex_scraper :: "int \<Rightarrow> int \<Rightarrow> int \<Rightarrow> scraper" where
  "ex_scraper depth_cap page_cap domain_cap =
     \<lparr>start_url = ''http://h/a'', base_domain = ''http://h'',
      output_dir = ''out'', max_depth = depth_cap, max_pages = page_cap,
      pages_per_domain = domain_cap, respect_robots = True, skip_assets = False,
      visited_urls = {}, scraped_data = Map.empty, asset_map = Map.empty,
      failed_assets = {}, queue = [], domain_counts = Map.empty,
      pages_scraped_count = 0, should_stop = False, robots_cache = Map.empty,
      stats_pages_scraped = 0, stats_pages_failed = 0, requests = [],
      files = Map.empty\<rparr>"

definition world_write_fails :: world where
  "world_write_fails =
     \<lparr>serve = serve (site [(PageGet ''http://h/a'', Response 200 ''text/html'' page_plain)]),
      write_ok = (\<lambda>f. False)\<rparr>"

definition world_assets :: world where
  "world_assets =
     site [(AssetGet ''http://h/s.svg'', Response 200 ''image/svg+xml'' ''<svg/>''),
           (AssetGet ''http://h/b.png'', Response 200 ''image/png'' ''PNG''),
           (AssetGet ''http://h/logo.png'', Response 403 [] [])]"

section \<open>Notions used by the properties\<close>

text \<open>Two states agree on the visited set and on the page requests issued so far.\<close>

definition same_pages :: "scraper \<Rightarrow> scraper \<Rightarrow> bool" where
  "same_pages s s' \<longleftrightarrow>
     visited_urls s' = visited_urls s \<and> page_gets (requests s') = page_gets (requests s)"

text \<open>The URLs whose fetch is in flight.\<close>

definition fetching :: "worker_state list \<Rightarrow> string list" where
  "fetching ws = concat (map (\<lambda>t. case t of Idle \<Rightarrow> [] | Fetching u d \<Rightarrow> [u]) ws)"

text \<open>
  No page was requested twice, every page requested is in the visited set, and
  the URLs in flight are different from each other, visited, and not requested yet.
\<close>

definition fetch_inv :: "system \<Rightarrow> bool" where
  "fetch_inv sys \<longleftrightarrow>
     distinct (page_gets (requests (shared sys)) @ fetching (workers sys))
     \<and> set (page_gets (requests (shared sys)) @ fetching (workers sys)) \<subseteq> visited_urls (shared sys)"

text \<open>An asset URL has an entry in the positive or in the negative cache.\<close>

definition asset_cached :: "string \<Rightarrow> scraper \<Rightarrow> bool" where
  "asset_cached url s \<longleftrightarrow> asset_map s url \<noteq> None \<or> url \<in> failed_assets s"

text \<open>Calls of \<^verbatim>\<open>download_asset\<close> one after the other, each returning before the next starts.\<close>

definition download_all :: "pylib \<Rightarrow> world \<Rightarrow> (string \<times> string) list \<Rightarrow> scraper \<Rightarrow> scraper" where
  "download_all lib w calls s = foldl (\<lambda>st (u, t). snd (download_asset lib w u t st)) s calls"

text \<open>
  What the robots scenario needs from the libraries: the parser and the printer
  on the seed page, the two joined URLs, and the answers of the robots parser.
\<close>

definition s6_library :: "pylib \<Rightarrow> bool" where
  "s6_library lib \<longleftrightarrow>
     parse_html lib page_private_link = soup_link ''/private''
     \<and> urljoin lib ''http://h/a'' ''/private'' = Inr ''http://h/private''
     \<and> render_html lib (soup_link ''http://h/private'') = page_private_link_rewritten
     \<and> parse_html lib page_private_link_rewritten = soup_link ''http://h/private''
     \<and> urljoin lib ''http://h/a'' ''http://h/private'' = Inr ''http://h/private''
     \<and> rp_can_fetch lib ex_robots_txt ''WebArchiver/1.0'' ''http://h/a'' = Inr True
     \<and> rp_can_fetch lib ex_robots_txt ''WebArchiver/1.0'' ''http://h/private'' = Inr False"


section \<open>Properties of the functions\<close>

subsection \<open>Requests and frames\<close>

lemma page_gets_append [simp]: "page_gets (xs @ ys) = page_gets xs @ page_gets ys"
  by (simp add: page_gets_def)

lemma page_gets_single [simp]:
  "page_gets [PageGet u] = [u]" "page_gets [AssetGet u] = []" "page_gets [RobotsGet u] = []"
  "page_gets [] = []"
  by (simp_all add: page_gets_def)

lemma same_pages_refl [simp]: "same_pages s s"
  by (simp add: same_pages_def)

lemma same_pages_trans: "same_pages s s1 \<Longrightarrow> same_pages s1 s2 \<Longrightarrow> same_pages s s2"
  by (simp add: same_pages_def)

lemma same_pages_record_failure: "same_pages s (snd (record_failure url s))"
  by (simp add: same_pages_def record_failure_def)

lemma same_pages_store_asset: "same_pages s (snd (store_asset lib w url clean_url t content s))"
  by (simp add: same_pages_def store_asset_def record_failure_def Let_def split: sum.splits)

lemma same_pages_download_asset_begin: "same_pages s (snd (download_asset_begin lib w url s))"
  by (simp add: same_pages_def download_asset_begin_def record_failure_def http_get_def Let_def
      split: option.splits sum.splits)

lemma same_pages_download_asset_end:
  "same_pages s (snd (download_asset_end lib w url t clean_url resp s))"
  by (auto simp add: same_pages_def download_asset_end_def store_asset_def record_failure_def
      http_get_def Let_def split: http_response.splits sum.splits)

lemma same_pages_download_asset: "same_pages s (snd (download_asset lib w url t s))"
proof -
  obtain r s1 where b: "download_asset_begin lib w url s = (r, s1)"
    by (cases "download_asset_begin lib w url s")
  have s1: "same_pages s s1"
    using same_pages_download_asset_begin[of s lib w url] b by simp
  show ?thesis
  proof (cases r)
    case (Done x)
    with b s1 show ?thesis by (simp add: download_asset_def)
  next
    case (Await clean_url resp)
    have "same_pages s1 (snd (download_asset_end lib w url t clean_url resp s1))"
      by (rule same_pages_download_asset_end)
    with s1 have "same_pages s (snd (download_asset_end lib w url t clean_url resp s1))"
      by (rule same_pages_trans)
    with b Await show ?thesis by (simp add: download_asset_def)
  qed
qed

lemma same_pages_rewrite_css_loop:
  "same_pages s (snd (rewrite_css_loop lib w base urls css s))"
proof (induction urls arbitrary: css s)
  case Nil
  show ?case by simp
next
  case (Cons url urls)
  show ?case
  proof (cases "startswith url ''data:''")
    case True
    with Cons show ?thesis by simp
  next
    case False
    show ?thesis
    proof (cases "urljoin lib base url")
      case (Inl e)
      with False show ?thesis by simp
    next
      case (Inr absolute_url)
      obtain r s1 where d: "download_asset lib w absolute_url (css_asset_type url) s = (r, s1)"
        by (cases "download_asset lib w absolute_url (css_asset_type url) s")
      have s1: "same_pages s s1"
        using same_pages_download_asset[of s lib w absolute_url "css_asset_type url"] d by simp
      have "same_pages s1 (snd (rewrite_css_loop lib w base urls css' s1))" for css'
        by (rule Cons.IH)
      with s1 have "same_pages s (snd (rewrite_css_loop lib w base urls css' s1))" for css'
        by (rule same_pages_trans)
      with False Inr d show ?thesis
        by (simp split: option.splits)
    qed
  qed
qed

lemma same_pages_rewrite_css_urls: "same_pages s (snd (rewrite_css_urls lib w css base s))"
  by (simp add: rewrite_css_urls_def same_pages_rewrite_css_loop)

lemma same_pages_rewrite_style_tags:
  "same_pages s (snd (rewrite_style_tags lib w base sp s))"
proof (induction sp arbitrary: s)
  case Nil
  show ?case by simp
next
  case (Cons e es)
  define r where
    "r = (if tag e = ''style'' \<and> truthy (text_of e)
          then (case rewrite_css_urls lib w (the (text_of e)) base s of
                  (Inl x, s1) \<Rightarrow> (Inl x, s1)
                | (Inr css, s1) \<Rightarrow> (Inr (Element (tag e) (attrs e) (Some css)), s1))
          else (Inr e, s))"
  have r: "same_pages s (snd r)"
    using same_pages_rewrite_css_urls[of s lib w "the (text_of e)" base]
    by (auto simp add: r_def split: prod.splits sum.splits)
  obtain x s1 where rx: "r = (x, s1)" by (cases r)
  with r have s1: "same_pages s s1" by simp
  have "same_pages s1 (snd (rewrite_style_tags lib w base es s1))"
    by (rule Cons.IH)
  with s1 have "same_pages s (snd (rewrite_style_tags lib w base es s1))"
    by (rule same_pages_trans)
  with s1 rx show ?case
    unfolding rewrite_style_tags.simps r_def[symmetric]
    by (auto split: sum.splits prod.splits)
qed

lemma same_pages_rewrite_inline_styles:
  "same_pages s (snd (rewrite_inline_styles lib w base sp s))"
proof (induction sp arbitrary: s)
  case Nil
  show ?case by simp
next
  case (Cons e es)
  define r where
    "r = (case get_attr e ''style'' of
            None \<Rightarrow> (Inr e, s)
          | Some v \<Rightarrow>
              (case rewrite_css_urls lib w v base s of
                 (Inl x, s1) \<Rightarrow> (Inl x, s1)
               | (Inr css, s1) \<Rightarrow> (Inr (set_attr e ''style'' css), s1)))"
  have r: "same_pages s (snd r)"
  proof (cases "get_attr e ''style''")
    case None
    then show ?thesis by (simp add: r_def)
  next
    case (Some v)
    with same_pages_rewrite_css_urls[of s lib w v base] show ?thesis
      by (auto simp add: r_def split: prod.splits sum.splits)
  qed
  obtain x s1 where rx: "r = (x, s1)" by (cases r)
  with r have s1: "same_pages s s1" by simp
  have "same_pages s1 (snd (rewrite_inline_styles lib w base es s1))"
    by (rule Cons.IH)
  with s1 have "same_pages s (snd (rewrite_inline_styles lib w base es s1))"
    by (rule same_pages_trans)
  with s1 rx show ?case
    unfolding rewrite_inline_styles.simps r_def[symmetric]
    by (auto split: sum.splits prod.splits)
qed

lemma same_pages_apply_tasks: "same_pages s (snd (apply_tasks lib w ts sp s))"
proof (induction ts arbitrary: sp s)
  case Nil
  show ?case by simp
next
  case (Cons task ts)
  obtain i attr original_url absolute_url asset_type
    where task: "task = (i, attr, original_url, absolute_url, asset_type)"
    by (cases task)
  obtain r s1 where d: "download_asset lib w absolute_url asset_type s = (r, s1)"
    by (cases "download_asset lib w absolute_url asset_type s")
  have s1: "same_pages s s1"
    using same_pages_download_asset[of s lib w absolute_url asset_type] d by simp
  have "same_pages s1 (snd (apply_tasks lib w ts sp' s1))" for sp'
    by (rule Cons.IH)
  with s1 have "same_pages s (snd (apply_tasks lib w ts sp' s1))" for sp'
    by (rule same_pages_trans)
  with task d show ?case by (simp add: Let_def)
qed

lemma same_pages_rewrite_html_urls: "same_pages s (snd (rewrite_html_urls lib w html base s))"
proof (cases "make_tasks lib base (all_candidates (parse_html lib html))")
  case (Inl x)
  then show ?thesis by (simp add: rewrite_html_urls_def)
next
  case (Inr asset_tasks)
  obtain r1 s1 where t1: "rewrite_style_tags lib w base (parse_html lib html) s = (r1, s1)"
    by (cases "rewrite_style_tags lib w base (parse_html lib html) s")
  have s1: "same_pages s s1"
    using same_pages_rewrite_style_tags[of s lib w base "parse_html lib html"] t1 by simp
  show ?thesis
  proof (cases r1)
    case (Inl x)
    with Inr t1 s1 show ?thesis by (simp add: rewrite_html_urls_def)
  next
    case sp1: (Inr sp1)
    obtain r2 s2 where t2: "rewrite_inline_styles lib w base sp1 s1 = (r2, s2)"
      by (cases "rewrite_inline_styles lib w base sp1 s1")
    have "same_pages s1 s2"
      using same_pages_rewrite_inline_styles[of s1 lib w base sp1] t2 by simp
    with s1 have s2: "same_pages s s2" by (rule same_pages_trans)
    show ?thesis
    proof (cases r2)
      case (Inl x)
      with Inr t1 sp1 t2 s2 show ?thesis by (simp add: rewrite_html_urls_def)
    next
      case sp2: (Inr sp2)
      have "same_pages s2 (snd (apply_tasks lib w asset_tasks sp2 s2))"
        by (rule same_pages_apply_tasks)
      with s2 have "same_pages s (snd (apply_tasks lib w asset_tasks sp2 s2))"
        by (rule same_pages_trans)
      with Inr t1 sp1 t2 sp2 s2 show ?thesis
        by (auto simp add: rewrite_html_urls_def split: prod.splits sum.splits)
    qed
  qed
qed

lemma same_pages_can_fetch: "same_pages s (snd (can_fetch lib w url agent s))"
  by (simp add: same_pages_def can_fetch_def http_get_def Let_def
      split: sum.splits option.splits http_response.splits)

lemma same_pages_save_page_content:
  "same_pages s (snd (save_page_content lib w url content ct s))"
  by (simp add: same_pages_def save_page_content_def Let_def)

lemma same_pages_enqueue: "same_pages s (enqueue urls depth s)"
  by (simp add: same_pages_def enqueue_def)

text \<open>A page fetch requests its own URL at most once and nothing else of a page.\<close>

lemma fetch_page_requests:
  "visited_urls (snd (fetch_page lib w url s)) = visited_urls s \<and>
   (page_gets (requests (snd (fetch_page lib w url s))) = page_gets (requests s)
    \<or> page_gets (requests (snd (fetch_page lib w url s))) = page_gets (requests s) @ [url])"
proof -
  obtain allowed s1 where c:
    "(if respect_robots s then can_fetch lib w url ''WebArchiver/1.0'' s else (True, s)) = (allowed, s1)"
    by (cases "if respect_robots s then can_fetch lib w url ''WebArchiver/1.0'' s else (True, s)")
  have "same_pages s s1"
    using same_pages_can_fetch[of s lib w url "''WebArchiver/1.0''"] c
    by (auto split: if_splits)
  then show ?thesis
    using c
    by (auto simp add: fetch_page_def same_pages_def http_get_def add_failed_def
        split: sum.splits http_response.splits prod.splits)
qed

lemma same_pages_update_counters: "same_pages s (update_counters s)"
  by (simp add: same_pages_def update_counters_def Let_def)

lemma same_pages_count_domain: "same_pages s (add_page (count_domain domain s))"
  by (simp add: same_pages_def count_domain_def add_page_def)

lemma same_pages_store_page: "same_pages s (store_page lib w url depth ct domain content s)"
proof -
  obtain filepath s1 where sv: "save_page_content lib w url content ct s = (filepath, s1)"
    by (cases "save_page_content lib w url content ct s")
  have "same_pages s s1"
    using same_pages_save_page_content[of s lib w url content ct] sv by simp
  with sv show ?thesis
    by (simp add: store_page_def Let_def same_pages_def enqueue_def)
qed

lemma process_url_fetch_requests:
  "visited_urls (snd (process_url_fetch lib w url depth s)) = visited_urls s \<and>
   (page_gets (requests (snd (process_url_fetch lib w url depth s))) = page_gets (requests s)
    \<or> page_gets (requests (snd (process_url_fetch lib w url depth s))) = page_gets (requests s) @ [url])"
proof -
  obtain r s1 where f: "fetch_page lib w url s = (r, s1)"
    by (cases "fetch_page lib w url s")
  have s1: "visited_urls s1 = visited_urls s \<and>
     (page_gets (requests s1) = page_gets (requests s)
      \<or> page_gets (requests s1) = page_gets (requests s) @ [url])"
    using fetch_page_requests[of lib w url s] f by simp
  have rest: "same_pages s1 (snd (process_url_fetch lib w url depth s))"
  proof (cases r)
    case None
    with f show ?thesis by (simp add: process_url_fetch_def)
  next
    case (Some cc)
    obtain content ct where cc: "cc = (content, ct)" by (cases cc)
    have s2: "same_pages s1 (update_counters s1)"
      by (rule same_pages_update_counters)
    show ?thesis
    proof (cases "urlparse lib url")
      case (Inl e)
      with f Some cc s2 show ?thesis
        by (simp add: process_url_fetch_def Let_def)
    next
      case (Inr parsed)
      define s3 where "s3 = add_page (count_domain (netloc parsed) (update_counters s1))"
      have "same_pages (update_counters s1) s3"
        unfolding s3_def by (rule same_pages_count_domain)
      with s2 have s3: "same_pages s1 s3" by (rule same_pages_trans)
      obtain r4 s4 where rw:
        "(if str_in ''html'' ct then rewrite_html_urls lib w content url s3 else (Inr content, s3)) = (r4, s4)"
        by (cases "if str_in ''html'' ct then rewrite_html_urls lib w content url s3 else (Inr content, s3)")
      have "same_pages s3 s4"
        using same_pages_rewrite_html_urls[of s3 lib w content url] rw
        by (auto split: if_splits)
      with s3 have s4: "same_pages s1 s4" by (rule same_pages_trans)
      have unfold: "process_url_fetch lib w url depth s =
        (case r4 of
           Inl e \<Rightarrow> (Some e, s4)
         | Inr content' \<Rightarrow> (None, store_page lib w url depth ct (netloc parsed) content' s4))"
        using f Some cc Inr rw
        by (auto simp add: process_url_fetch_def Let_def s3_def[symmetric] split: if_splits)
      show ?thesis
      proof (cases r4)
        case (Inl e)
        with unfold s4 show ?thesis by simp
      next
        case content': (Inr content')
        have "same_pages s4 (store_page lib w url depth ct (netloc parsed) content' s4)"
          by (rule same_pages_store_page)
        with s4 have "same_pages s1 (store_page lib w url depth ct (netloc parsed) content' s4)"
          by (rule same_pages_trans)
        with unfold content' show ?thesis by simp
      qed
    qed
  qed
  from s1 rest show ?thesis by (auto simp add: same_pages_def)
qed

lemma process_url_admit_cases:
  assumes "process_url_admit lib url depth s = (r, s1)"
  shows "requests s1 = requests s \<and>
         (if r = Inr True then url \<notin> visited_urls s \<and> visited_urls s1 = insert url (visited_urls s)
          else visited_urls s1 = visited_urls s)"
  using assms
  by (auto simp add: process_url_admit_def check_limits_def Let_def
      split: if_splits sum.splits prod.splits)

subsection \<open>URLs in flight\<close>

lemma fetching_append [simp]: "fetching (xs @ ys) = fetching xs @ fetching ys"
  by (simp add: fetching_def)

lemma fetching_Cons [simp]:
  "fetching (Idle # ws) = fetching ws" "fetching (Fetching u d # ws) = u # fetching ws"
  "fetching [] = []"
  by (simp_all add: fetching_def)

lemma fetching_replicate_Idle [simp]: "fetching (replicate n Idle) = []"
  by (induction n) simp_all

lemma fetching_start:
  assumes "i < length ws" and "ws ! i = Idle"
  shows "\<exists>xs ys. fetching ws = xs @ ys \<and> fetching (ws[i := Fetching u d]) = xs @ u # ys"
proof -
  have ws: "ws = take i ws @ Idle # drop (Suc i) ws"
    using assms by (metis id_take_nth_drop)
  have "ws[i := Fetching u d] = take i ws @ Fetching u d # drop (Suc i) ws"
    using assms by (simp add: upd_conv_take_nth_drop)
  then have "fetching (ws[i := Fetching u d]) = fetching (take i ws) @ u # fetching (drop (Suc i) ws)"
    by simp
  moreover have "fetching ws = fetching (take i ws) @ fetching (drop (Suc i) ws)"
    by (subst ws) simp
  ultimately show ?thesis by blast
qed

lemma fetching_finish:
  assumes "i < length ws" and "ws ! i = Fetching u d"
  shows "\<exists>xs ys. fetching ws = xs @ u # ys \<and> fetching (ws[i := Idle]) = xs @ ys"
proof -
  have ws: "ws = take i ws @ Fetching u d # drop (Suc i) ws"
    using assms by (metis id_take_nth_drop)
  have "ws[i := Idle] = take i ws @ Idle # drop (Suc i) ws"
    using assms by (simp add: upd_conv_take_nth_drop)
  then have "fetching (ws[i := Idle]) = fetching (take i ws) @ fetching (drop (Suc i) ws)"
    by simp
  moreover have "fetching ws = fetching (take i ws) @ u # fetching (drop (Suc i) ws)"
    by (subst ws) simp
  ultimately show ?thesis by blast
qed

subsection \<open>The invariant of the schedule\<close>

lemma fetch_inv_start: "page_gets (requests s) = [] \<Longrightarrow> fetch_inv (start_run n s)"
  by (simp add: fetch_inv_def start_run_def)

lemma fetch_inv_worker_step:
  assumes inv: "fetch_inv sys"
  shows "fetch_inv (worker_step lib w i sys)"
proof (cases "i < length (workers sys)")
  case False
  with inv show ?thesis by (simp add: worker_step_def)
next
  case i: True
  show ?thesis
  proof (cases "workers sys ! i")
    case Idle
    show ?thesis
    proof (cases "should_stop (shared sys) \<or> queue (shared sys) = []")
      case True
      with inv i Idle show ?thesis
        by (auto simp add: worker_step_def split: list.splits)
    next
      case False
      then obtain url depth q where q: "queue (shared sys) = (url, depth) # q"
        by (cases "queue (shared sys)") auto
      obtain r s1 where a:
        "process_url_admit lib url depth ((shared sys)\<lparr>queue := q\<rparr>) = (r, s1)"
        by (cases "process_url_admit lib url depth ((shared sys)\<lparr>queue := q\<rparr>)")
      note c = process_url_admit_cases[OF a]
      show ?thesis
      proof (cases "r = Inr True")
        case True
        have step: "worker_step lib w i sys =
            \<lparr>shared = s1, workers = (workers sys)[i := Fetching url depth]\<rparr>"
          using i Idle False q a True by (simp add: worker_step_def)
        obtain xs ys where f: "fetching (workers sys) = xs @ ys"
            "fetching ((workers sys)[i := Fetching url depth]) = xs @ url # ys"
          using fetching_start[OF i Idle] by blast
        from c True have new: "url \<notin> visited_urls (shared sys)"
            "visited_urls s1 = insert url (visited_urls (shared sys))"
            "requests s1 = requests (shared sys)"
          by simp_all
        from inv f new show ?thesis
          unfolding step fetch_inv_def by auto
      next
        case False
        have step: "worker_step lib w i sys = sys\<lparr>shared := s1\<rparr>"
          using i Idle \<open>\<not> (should_stop (shared sys) \<or> queue (shared sys) = [])\<close> q a False
          by (cases r; cases "projr r") (auto simp add: worker_step_def)
        from c False have "visited_urls s1 = visited_urls (shared sys)"
            "requests s1 = requests (shared sys)"
          by simp_all
        with inv show ?thesis
          unfolding step fetch_inv_def by simp
      qed
    qed
  next
    case (Fetching url depth)
    define s1 where "s1 = snd (process_url_fetch lib w url depth (shared sys))"
    have step: "worker_step lib w i sys = \<lparr>shared = s1, workers = (workers sys)[i := Idle]\<rparr>"
      using i Fetching by (simp add: worker_step_def s1_def)
    obtain xs ys where f: "fetching (workers sys) = xs @ url # ys"
        "fetching ((workers sys)[i := Idle]) = xs @ ys"
      using fetching_finish[OF i Fetching] by blast
    have p: "visited_urls s1 = visited_urls (shared sys) \<and>
       (page_gets (requests s1) = page_gets (requests (shared sys))
        \<or> page_gets (requests s1) = page_gets (requests (shared sys)) @ [url])"
      unfolding s1_def by (rule process_url_fetch_requests)
    from inv f p show ?thesis
      unfolding step fetch_inv_def by auto
  qed
qed

lemma fetch_inv_run_schedule: "fetch_inv sys \<Longrightarrow> fetch_inv (run_schedule lib w sched sys)"
  unfolding run_schedule_def
  by (induction sched arbitrary: sys) (simp_all add: fetch_inv_worker_step)

subsection \<open>The asset caches\<close>

lemma asset_cached_after: "asset_cached url (snd (download_asset lib w url t s))"
  by (auto simp add: asset_cached_def download_asset_def download_asset_begin_def
      download_asset_end_def store_asset_def record_failure_def http_get_def Let_def
      split: option.splits sum.splits http_response.splits)

lemma asset_cached_mono:
  "asset_cached url s \<Longrightarrow> asset_cached url (snd (download_asset lib w url' t s))"
  by (auto simp add: asset_cached_def download_asset_def download_asset_begin_def
      download_asset_end_def store_asset_def record_failure_def http_get_def Let_def
      split: option.splits sum.splits http_response.splits)

lemma asset_cached_no_request:
  "asset_cached url s \<Longrightarrow> snd (download_asset lib w url t s) = s"
  by (auto simp add: asset_cached_def download_asset_def download_asset_begin_def
      split: option.splits)

lemma asset_cached_download_all_mono:
  "asset_cached url s \<Longrightarrow> asset_cached url (download_all lib w calls s)"
  unfolding download_all_def
  by (induction calls arbitrary: s) (auto simp add: asset_cached_mono)

lemma asset_cached_download_all:
  "(url, t) \<in> set calls \<Longrightarrow> asset_cached url (download_all lib w calls s)"
proof (induction calls arbitrary: s)
  case Nil
  then show ?case by simp
next
  case (Cons c calls)
  show ?case
  proof (cases "c = (url, t)")
    case True
    have "asset_cached url (snd (download_asset lib w url t s))"
      by (rule asset_cached_after)
    then have "asset_cached url (download_all lib w calls (snd (download_asset lib w url t s)))"
      by (rule asset_cached_download_all_mono)
    with True show ?thesis by (simp add: download_all_def)
  next
    case False
    with Cons.prems have "(url, t) \<in> set calls" by simp
    then have "asset_cached url (download_all lib w calls (snd (download_asset lib w (fst c) (snd c) s)))"
      by (rule Cons.IH)
    then show ?thesis by (simp add: download_all_def case_prod_unfold)
  qed
qed

lemma download_asset_requests:
  "\<exists>k\<le>2. requests (snd (download_asset lib w url t s)) =
     requests s @ replicate k (AssetGet (takeWhile (\<lambda>c. c \<noteq> CHR ''#'') url))"
proof -
  let ?r = "AssetGet (takeWhile (\<lambda>c. c \<noteq> CHR ''#'') url)"
  have "requests (snd (download_asset lib w url t s)) = requests s @ replicate 0 ?r
      \<or> requests (snd (download_asset lib w url t s)) = requests s @ replicate 1 ?r
      \<or> requests (snd (download_asset lib w url t s)) = requests s @ replicate 2 ?r"
    by (auto simp add: download_asset_def download_asset_begin_def
        download_asset_end_def store_asset_def record_failure_def http_get_def Let_def
        numeral_2_eq_2
        split: option.splits sum.splits http_response.splits)
  then show ?thesis
    by (metis le_refl one_le_numeral zero_le)
qed

subsection \<open>Textual replacement\<close>











section \<open>Values at the inputs of the examples\<close>

lemmas str_defs = startswith_def endswith_def strip_def is_space_def lower_def lower_chr_def
lemmas url_defs = urlparse_def urlsplit_def split_scheme_def splitparams_def
     c0_or_space_def is_alpha_def scheme_chars_def netloc_delim_def uses_params_def

lemma urlparse_a:
  "urlparse lib ''http://h/a'' =
     Inr \<lparr>scheme = ''http'', netloc = ''h'', path = ''/a'', params = [], query = [], fragment = []\<rparr>"
  by (simp add: url_defs str_defs Let_def)

lemma urlparse_b:
  "urlparse lib ''http://h/b'' =
     Inr \<lparr>scheme = ''http'', netloc = ''h'', path = ''/b'', params = [], query = [], fragment = []\<rparr>"
  by (simp add: url_defs str_defs Let_def)

lemma urlparse_c:
  "urlparse lib ''http://h/c'' =
     Inr \<lparr>scheme = ''http'', netloc = ''h'', path = ''/c'', params = [], query = [], fragment = []\<rparr>"
  by (simp add: url_defs str_defs Let_def)

lemma urlparse_private:
  "urlparse lib ''http://h/private'' =
     Inr \<lparr>scheme = ''http'', netloc = ''h'', path = ''/private'', params = [], query = [], fragment = []\<rparr>"
  by (simp add: url_defs str_defs Let_def)

lemma urlparse_style:
  "urlparse lib ''http://h/style'' =
     Inr \<lparr>scheme = ''http'', netloc = ''h'', path = ''/style'', params = [], query = [], fragment = []\<rparr>"
  by (simp add: url_defs str_defs Let_def)

lemma urlparse_svg:
  "urlparse lib ''http://h/s.svg'' =
     Inr \<lparr>scheme = ''http'', netloc = ''h'', path = ''/s.svg'', params = [], query = [], fragment = []\<rparr>"
  by (simp add: url_defs str_defs Let_def)

lemma urlparse_a_png:
  "urlparse lib ''http://h/a.png'' =
     Inr \<lparr>scheme = ''http'', netloc = ''h'', path = ''/a.png'', params = [], query = [], fragment = []\<rparr>"
  by (simp add: url_defs str_defs Let_def)

lemma urlparse_b_png:
  "urlparse lib ''http://h/b.png'' =
     Inr \<lparr>scheme = ''http'', netloc = ''h'', path = ''/b.png'', params = [], query = [], fragment = []\<rparr>"
  by (simp add: url_defs str_defs Let_def)

lemma urlparse_logo:
  "urlparse lib ''http://h/logo.png'' =
     Inr \<lparr>scheme = ''http'', netloc = ''h'', path = ''/logo.png'', params = [], query = [], fragment = []\<rparr>"
  by (simp add: url_defs str_defs Let_def)

lemma urlparse_origin:
  "urlparse lib ''http://h'' =
     Inr \<lparr>scheme = ''http'', netloc = ''h'', path = [], params = [], query = [], fragment = []\<rparr>"
  by (simp add: url_defs str_defs Let_def)

lemma lower_b: "lower ''http://h/b'' = ''http://h/b''"
  by (simp add: lower_def lower_chr_def)

lemma should_scrape_b: "should_scrape lib ''http://h/b'' ''http://h'' = Inr True"
  by (simp add: should_scrape_def should_scrape_body_def urlparse_b urlparse_origin lower_b
        splitext_ext_def DOWNLOAD_EXTENSIONS_def EXCLUDE_PATTERNS_def parse_qs_keys_def
        exclude_params_def startswith_def endswith_def lower_def lower_chr_def Let_def)

lemma lower_c: "lower ''http://h/c'' = ''http://h/c''"
  by (simp add: lower_def lower_chr_def)

lemma should_scrape_c: "should_scrape lib ''http://h/c'' ''http://h'' = Inr True"
  by (simp add: should_scrape_def should_scrape_body_def urlparse_c urlparse_origin lower_c
        splitext_ext_def DOWNLOAD_EXTENSIONS_def EXCLUDE_PATTERNS_def parse_qs_keys_def
        exclude_params_def startswith_def endswith_def lower_def lower_chr_def Let_def)

lemma lower_private: "lower ''http://h/private'' = ''http://h/private''"
  by (simp add: lower_def lower_chr_def)

lemma should_scrape_private: "should_scrape lib ''http://h/private'' ''http://h'' = Inr True"
  by (simp add: should_scrape_def should_scrape_body_def urlparse_private urlparse_origin lower_private
        splitext_ext_def DOWNLOAD_EXTENSIONS_def EXCLUDE_PATTERNS_def parse_qs_keys_def
        exclude_params_def startswith_def endswith_def lower_def lower_chr_def Let_def)

lemma md5_a: "md5_hexdigest ex_lib ''http://h/a'' = ''2ce7276502725c281e6d5ae4e55aed55''"
  by (simp add: ex_lib_def ex_md5_def)

lemma md5_b: "md5_hexdigest ex_lib ''http://h/b'' = ''9eb7218839b91c098ab0e2d8c080c379''"
  by (simp add: ex_lib_def ex_md5_def)

lemma md5_c: "md5_hexdigest ex_lib ''http://h/c'' = ''7b453791b85f9d698b6c8599731340ab''"
  by (simp add: ex_lib_def ex_md5_def)

lemma urljoin_a_b: "urljoin ex_lib ''http://h/a'' ''b'' = Inr ''http://h/b''"
  by (simp add: ex_lib_def ex_urljoin_def)

lemma urljoin_a_c: "urljoin ex_lib ''http://h/a'' ''c'' = Inr ''http://h/c''"
  by (simp add: ex_lib_def ex_urljoin_def)

lemma urljoin_a_abs_b: "urljoin ex_lib ''http://h/a'' ''http://h/b'' = Inr ''http://h/b''"
  by (simp add: ex_lib_def ex_urljoin_def)

lemma urljoin_a_abs_c: "urljoin ex_lib ''http://h/a'' ''http://h/c'' = Inr ''http://h/c''"
  by (simp add: ex_lib_def ex_urljoin_def)

lemma parse_two_links: "parse_html ex_lib page_two_links = soup_two_links ''b'' ''c''"
  by (simp add: ex_lib_def ex_parse_def page_private_link_def page_private_link_rewritten_def
        page_two_links_def)

lemma parse_two_links_rewritten:
  "parse_html ex_lib page_two_links_rewritten = soup_two_links ''http://h/b'' ''http://h/c''"
  by (simp add: ex_lib_def ex_parse_def page_private_link_def page_private_link_rewritten_def
        page_two_links_def page_two_links_rewritten_def)

lemma parse_plain: "parse_html ex_lib page_plain = soup_plain"
  by (simp add: ex_lib_def ex_parse_def page_private_link_def page_private_link_rewritten_def
        page_two_links_def page_two_links_rewritten_def page_plain_def)

lemma render_two_links:
  "render_html ex_lib (soup_two_links ''http://h/b'' ''http://h/c'') = page_two_links_rewritten"
  by (simp add: ex_lib_def ex_render_def soup_two_links_def page_two_links_rewritten_def)

lemma render_plain: "render_html ex_lib soup_plain = page_plain"
  by (simp add: ex_lib_def ex_render_def soup_plain_def)

lemmas soup_defs = all_candidates_def image_candidates_def single_candidates_def
  is_stylesheet_link_def is_font_link_def get_attr_def set_attr_def truthy_def image_attrs_def
  skip_href_def startswith_def get_url_hash_def

lemma rewrite_two_links:
  "''http://h/b'' \<notin> visited_urls s \<Longrightarrow> ''http://h/c'' \<notin> visited_urls s \<Longrightarrow>
   rewrite_html_urls ex_lib w page_two_links ''http://h/a'' s = (Inr page_two_links_rewritten, s)"
  by (simp add: rewrite_html_urls_def parse_two_links soup_defs urljoin_a_b urljoin_a_c
        soup_two_links_def[of "''b''" "''c''"] render_two_links[unfolded soup_two_links_def] Let_def)

lemma rewrite_plain: "rewrite_html_urls ex_lib w page_plain u s = (Inr page_plain, s)"
  by (simp add: rewrite_html_urls_def parse_plain soup_defs soup_plain_def
        render_plain[unfolded soup_plain_def] Let_def)

lemma extract_two_links:
  "extract_urls ex_lib page_two_links_rewritten ''http://h/a'' ''http://h'' = [''http://h/b'', ''http://h/c'']"
  by (simp add: extract_urls_def parse_two_links_rewritten soup_two_links_def get_attr_def truthy_def
        urljoin_a_abs_b urljoin_a_abs_c should_scrape_b should_scrape_c)

lemma extract_plain: "extract_urls ex_lib page_plain u bd = []"
  by (simp add: extract_urls_def parse_plain soup_plain_def get_attr_def truthy_def)

lemma serve_three_pages:
  "serve world_three_pages (PageGet ''http://h/a'') n = Response 200 ''text/html'' page_two_links"
  "serve world_three_pages (PageGet ''http://h/b'') n = Response 200 ''text/html'' page_plain"
  "serve world_three_pages (PageGet ''http://h/c'') n = Response 200 ''text/html'' page_plain"
  "serve world_three_pages (RobotsGet ''http://h/robots.txt'') n = Response 404 [] []"
  "write_ok world_three_pages f"
  by (simp_all add: world_three_pages_def site_def)

lemma html_in_text_html: "str_in ''html'' ''text/html''"
  by (simp add: startswith_def)

lemmas worker_defs = run_schedule_def worker_step_def start_run_def process_url_def
  process_url_admit_def process_url_fetch_def update_counters_def count_domain_def add_page_def
  store_page_def check_limits_def fetch_page_def can_fetch_def robots_answer_def http_get_def
  add_failed_def save_page_content_def enqueue_def emit_manifest_def get_url_hash_def
  startswith_def numeral_2_eq_2 Let_def

lemma md5_private: "md5_hexdigest ex_lib ''http://h/private'' = ''327d9b735ee306396f71392c662c2eba''"
  by (simp add: ex_lib_def ex_md5_def)

lemma urljoin_a_private: "urljoin ex_lib ''http://h/a'' ''/private'' = Inr ''http://h/private''"
  by (simp add: ex_lib_def ex_urljoin_def)

lemma urljoin_a_abs_private: "urljoin ex_lib ''http://h/a'' ''http://h/private'' = Inr ''http://h/private''"
  by (simp add: ex_lib_def ex_urljoin_def)

lemma parse_private_link: "parse_html ex_lib page_private_link = soup_link ''/private''"
  by (simp add: ex_lib_def ex_parse_def page_private_link_def)

lemma parse_private_link_rewritten:
  "parse_html ex_lib page_private_link_rewritten = soup_link ''http://h/private''"
  by (simp add: ex_lib_def ex_parse_def page_private_link_def page_private_link_rewritten_def)

lemma render_private_link:
  "render_html ex_lib (soup_link ''http://h/private'') = page_private_link_rewritten"
  by (simp add: ex_lib_def ex_render_def soup_link_def page_private_link_rewritten_def)

lemma serve_robots_deny:
  "serve world_robots_deny (PageGet ''http://h/a'') n = Response 200 ''text/html'' page_private_link"
  "serve world_robots_deny (RobotsGet ''http://h/robots.txt'') n = Response 200 ''text/plain'' ex_robots_txt"
  "write_ok world_robots_deny f"
  by (simp_all add: world_robots_deny_def site_def)

lemma robots_rules:
  "rp_can_fetch ex_lib ex_robots_txt agent ''http://h/a'' = Inr True"
  "rp_can_fetch ex_lib ex_robots_txt agent ''http://h/private'' = Inr False"
  by (simp_all add: ex_lib_def)

lemma s6_library_ex_lib: "s6_library ex_lib"
  unfolding s6_library_def
  by (simp only: parse_private_link urljoin_a_private render_private_link
        parse_private_link_rewritten urljoin_a_abs_private robots_rules simp_thms)

lemma rewrite_private_link:
  assumes "s6_library lib" and "''http://h/private'' \<notin> visited_urls s"
  shows "rewrite_html_urls lib w page_private_link ''http://h/a'' s = (Inr page_private_link_rewritten, s)"
proof -
  from assms(1) have p: "parse_html lib page_private_link = soup_link ''/private''"
    and j: "urljoin lib ''http://h/a'' ''/private'' = Inr ''http://h/private''"
    and r: "render_html lib (soup_link ''http://h/private'') = page_private_link_rewritten"
    by (simp_all add: s6_library_def)
  from assms(2) show ?thesis
    by (simp add: rewrite_html_urls_def p soup_defs j
        soup_link_def[of "''/private''"] r[unfolded soup_link_def] Let_def)
qed

lemma extract_private_link:
  assumes "s6_library lib"
  shows "extract_urls lib page_private_link_rewritten ''http://h/a'' ''http://h'' = [''http://h/private'']"
proof -
  from assms have p: "parse_html lib page_private_link_rewritten = soup_link ''http://h/private''"
    and j: "urljoin lib ''http://h/a'' ''http://h/private'' = Inr ''http://h/private''"
    by (simp_all add: s6_library_def)
  show ?thesis
    by (simp add: extract_urls_def p soup_link_def get_attr_def truthy_def j should_scrape_private)
qed

lemma robots_deny_run:
  assumes "s6_library lib" and "1 \<le> d" and "2 \<le> p" and "2 \<le> q"
  shows "run_schedule lib world_robots_deny [0, 0, 0, 0] (start_run 1 (ex_scraper d p q)) =
    \<lparr>shared = (ex_scraper d p q)
       \<lparr>visited_urls := {''http://h/private'', ''http://h/a''},
        scraped_data := [''http://h/a'' \<mapsto>
           \<lparr>pr_url = ''http://h/a'', pr_content_type = ''text/html'',
            pr_filepath = Some (''out/html/'' @ md5_hexdigest lib ''http://h/a'' @ ''.html''),
            pr_depth = 0, pr_size = int (length page_private_link_rewritten), pr_domain = ''h''\<rparr>],
        domain_counts := [''h'' \<mapsto> 1],
        pages_scraped_count := 1,
        robots_cache := [''http://h'' \<mapsto> ex_robots_txt],
        stats_pages_scraped := 1,
        requests := [RobotsGet ''http://h/robots.txt'', PageGet ''http://h/a''],
        files := [''out/html/'' @ md5_hexdigest lib ''http://h/a'' @ ''.html'' \<mapsto> page_private_link_rewritten]\<rparr>,
      workers = [Idle]\<rparr>"
proof -
  from assms(1) have allow: "rp_can_fetch lib ex_robots_txt ''WebArchiver/1.0'' ''http://h/a'' = Inr True"
    and deny: "rp_can_fetch lib ex_robots_txt ''WebArchiver/1.0'' ''http://h/private'' = Inr False"
    by (simp_all add: s6_library_def)
  from assms(2-4) show ?thesis
    by (simp add: worker_defs ex_scraper_def urlparse_a urlparse_private serve_robots_deny allow deny
        rewrite_private_link[OF assms(1)] extract_private_link[OF assms(1)])
qed

lemma serve_assets:
  "serve world_assets (AssetGet ''http://h/s.svg'') n = Response 200 ''image/svg+xml'' ''<svg/>''"
  "serve world_assets (AssetGet ''http://h/b.png'') n = Response 200 ''image/png'' ''PNG''"
  "serve world_assets (AssetGet ''http://h/a.png'') n = Response 404 [] []"
  "serve world_assets (AssetGet ''http://h/logo.png'') n = Response 403 [] []"
  "write_ok world_assets f"
  by (simp_all add: world_assets_def site_def)

lemma serve_write_fails:
  "serve world_write_fails (PageGet ''http://h/a'') n = Response 200 ''text/html'' page_plain"
  "serve world_write_fails (RobotsGet ''http://h/robots.txt'') n = Response 404 [] []"
  "\<not> write_ok world_write_fails f"
  by (simp_all add: world_write_fails_def site_def)

lemma serve_nothing: "serve (site []) r n = Response 404 [] []"
  by (simp add: site_def)

lemma local_path_svg:
  "get_asset_local_path ex_lib ''http://h/s.svg'' ''image'' = Inr ''images/cf63f22e1283165d44932f71bb57fa7e.svg''"
  by (simp add: get_asset_local_path_def urlparse_svg splitext_ext_def Let_def ex_lib_def ex_md5_def)

lemma local_path_b_png:
  "get_asset_local_path ex_lib ''http://h/b.png'' ''image'' = Inr ''images/e4938a6a6b2137221031c06709fb3b54.png''"
  by (simp add: get_asset_local_path_def urlparse_b_png splitext_ext_def Let_def ex_lib_def ex_md5_def)

lemma urljoin_p:
  "urljoin ex_lib ''http://h/p'' ''a.png'' = Inr ''http://h/a.png''"
  "urljoin ex_lib ''http://h/p'' ''b.png'' = Inr ''http://h/b.png''"
  by (simp_all add: ex_lib_def ex_urljoin_def)

lemma parse_srcset: "parse_html ex_lib page_srcset = soup_srcset ''a.png 1x, b.png 2x''"
  by (simp add: ex_lib_def ex_parse_def page_private_link_def page_private_link_rewritten_def
        page_two_links_def page_two_links_rewritten_def page_plain_def page_srcset_def)

lemma render_srcset: "render_html ex_lib (soup_srcset v) = page_srcset_of v"
  by (simp add: ex_lib_def ex_render_def soup_srcset_def)

lemmas asset_defs = download_asset_def download_asset_begin_def download_asset_end_def
  store_asset_def record_failure_def http_get_def Let_def

lemma strip_svg_fragment:
  "takeWhile (\<lambda>c. c \<noteq> CHR ''#'') ''http://h/s.svg#a'' = ''http://h/s.svg''"
  "takeWhile (\<lambda>c. c \<noteq> CHR ''#'') ''http://h/s.svg#b'' = ''http://h/s.svg''"
  "takeWhile (\<lambda>c. c \<noteq> CHR ''#'') ''http://h/s.svg'' = ''http://h/s.svg''"
  "takeWhile (\<lambda>c. c \<noteq> CHR ''#'') ''http://h/logo.png'' = ''http://h/logo.png''"
  "takeWhile (\<lambda>c. c \<noteq> CHR ''#'') ''http://h/a.png'' = ''http://h/a.png''"
  "takeWhile (\<lambda>c. c \<noteq> CHR ''#'') ''http://h/b.png'' = ''http://h/b.png''"
  by simp_all

lemma asset_gets_append [simp]: "asset_gets (xs @ ys) = asset_gets xs @ asset_gets ys"
  by (simp add: asset_gets_def)

lemma asset_gets_single [simp]:
  "asset_gets [PageGet u] = []" "asset_gets [AssetGet u] = [u]" "asset_gets [RobotsGet u] = []"
  "asset_gets [] = []"
  by (simp_all add: asset_gets_def)

lemma download_svg_a:
  "download_asset ex_lib world_assets ''http://h/s.svg#a'' ''image'' (ex_scraper 3 100 50) =
     (Some ''images/cf63f22e1283165d44932f71bb57fa7e.svg'',
      (ex_scraper 3 100 50)
        \<lparr>asset_map := [''http://h/s.svg#a'' \<mapsto> ''images/cf63f22e1283165d44932f71bb57fa7e.svg''],
         requests := [AssetGet ''http://h/s.svg''],
         files := [''out/images/cf63f22e1283165d44932f71bb57fa7e.svg'' \<mapsto> ''<svg/>'']\<rparr>)"
  by (simp add: asset_defs ex_scraper_def strip_svg_fragment urlparse_svg serve_assets local_path_svg)

lemma download_svg_b:
  "download_asset ex_lib world_assets ''http://h/s.svg#b'' ''image''
     ((ex_scraper 3 100 50)
        \<lparr>asset_map := [''http://h/s.svg#a'' \<mapsto> ''images/cf63f22e1283165d44932f71bb57fa7e.svg''],
         requests := [AssetGet ''http://h/s.svg''],
         files := [''out/images/cf63f22e1283165d44932f71bb57fa7e.svg'' \<mapsto> ''<svg/>'']\<rparr>) =
     (Some ''images/cf63f22e1283165d44932f71bb57fa7e.svg'',
      (ex_scraper 3 100 50)
        \<lparr>asset_map := [''http://h/s.svg#a'' \<mapsto> ''images/cf63f22e1283165d44932f71bb57fa7e.svg'',
                       ''http://h/s.svg#b'' \<mapsto> ''images/cf63f22e1283165d44932f71bb57fa7e.svg''],
         requests := [AssetGet ''http://h/s.svg'', AssetGet ''http://h/s.svg''],
         files := [''out/images/cf63f22e1283165d44932f71bb57fa7e.svg'' \<mapsto> ''<svg/>'']\<rparr>)"
  by (simp add: asset_defs ex_scraper_def strip_svg_fragment urlparse_svg serve_assets local_path_svg)


lemma race_run:
  "run_schedule ex_lib world_three_pages [0, 0, 0, 1, 0, 1] (start_run 2 (ex_scraper 3 2 50)) =
    \<lparr>shared = (ex_scraper 3 2 50)
       \<lparr>visited_urls := {''http://h/c'', ''http://h/b'', ''http://h/a''},
        scraped_data := [''http://h/a'' \<mapsto>
           \<lparr>pr_url = ''http://h/a'', pr_content_type = ''text/html'',
            pr_filepath = Some ''out/html/2ce7276502725c281e6d5ae4e55aed55.html'',
            pr_depth = 0, pr_size = int (length page_two_links_rewritten), pr_domain = ''h''\<rparr>,
          ''http://h/b'' \<mapsto>
           \<lparr>pr_url = ''http://h/b'', pr_content_type = ''text/html'',
            pr_filepath = Some ''out/html/9eb7218839b91c098ab0e2d8c080c379.html'',
            pr_depth = 1, pr_size = int (length page_plain), pr_domain = ''h''\<rparr>,
          ''http://h/c'' \<mapsto>
           \<lparr>pr_url = ''http://h/c'', pr_content_type = ''text/html'',
            pr_filepath = Some ''out/html/7b453791b85f9d698b6c8599731340ab.html'',
            pr_depth = 1, pr_size = int (length page_plain), pr_domain = ''h''\<rparr>],
        domain_counts := [''h'' \<mapsto> 3],
        pages_scraped_count := 3,
        should_stop := True,
        stats_pages_scraped := 3,
        requests := [RobotsGet ''http://h/robots.txt'', PageGet ''http://h/a'',
                     RobotsGet ''http://h/robots.txt'', PageGet ''http://h/b'',
                     RobotsGet ''http://h/robots.txt'', PageGet ''http://h/c''],
        files := [''out/html/2ce7276502725c281e6d5ae4e55aed55.html'' \<mapsto> page_two_links_rewritten,
                  ''out/html/9eb7218839b91c098ab0e2d8c080c379.html'' \<mapsto> page_plain,
                  ''out/html/7b453791b85f9d698b6c8599731340ab.html'' \<mapsto> page_plain]\<rparr>,
      workers = [Idle, Idle]\<rparr>"
  by (simp add: worker_defs ex_scraper_def urlparse_a urlparse_b urlparse_c serve_three_pages
        rewrite_two_links rewrite_plain extract_two_links extract_plain md5_a md5_b md5_c)

lemma write_failure_run:
  "process_url ex_lib world_write_fails ''http://h/a'' 0 (ex_scraper 3 100 50) =
    (None, (ex_scraper 3 100 50)
       \<lparr>visited_urls := {''http://h/a''},
        scraped_data := [''http://h/a'' \<mapsto>
           \<lparr>pr_url = ''http://h/a'', pr_content_type = ''text/html'', pr_filepath = None,
            pr_depth = 0, pr_size = int (length page_plain), pr_domain = ''h''\<rparr>],
        domain_counts := [''h'' \<mapsto> 1],
        pages_scraped_count := 1,
        stats_pages_scraped := 1,
        requests := [RobotsGet ''http://h/robots.txt'', PageGet ''http://h/a'']\<rparr>)"
  by (simp add: worker_defs ex_scraper_def urlparse_a serve_write_fails rewrite_plain extract_plain md5_a)

lemma srcset_candidates:
  "all_candidates (soup_srcset ''a.png 1x, b.png 2x'') =
     [(2, ''srcset'', ''a.png'', ''image''), (2, ''srcset'', ''b.png'', ''image'')]"
  by (simp add: soup_defs soup_srcset_def srcset_urls_def first_item_def strip_def is_space_def
        numeral_2_eq_2)

lemma srcset_rewrite_run:
  "rewrite_html_urls ex_lib world_assets page_srcset ''http://h/p'' (ex_scraper 3 100 50) =
     (Inr (page_srcset_of ''http://h/a.png''),
      (ex_scraper 3 100 50)
        \<lparr>asset_map := [''http://h/b.png'' \<mapsto> ''images/e4938a6a6b2137221031c06709fb3b54.png''],
         failed_assets := {''http://h/a.png''},
         requests := [AssetGet ''http://h/a.png'', AssetGet ''http://h/b.png''],
         files := [''out/images/e4938a6a6b2137221031c06709fb3b54.png'' \<mapsto> ''PNG'']\<rparr>)"
  by (simp add: rewrite_html_urls_def parse_srcset srcset_candidates[unfolded soup_srcset_def] urljoin_p
        soup_srcset_def get_attr_def set_attr_def truthy_def startswith_def
        asset_defs ex_scraper_def strip_svg_fragment urlparse_a_png urlparse_b_png serve_assets
        local_path_b_png rewrite_srcset_def part_items_def strip_def is_space_def
        render_srcset[unfolded soup_srcset_def] numeral_2_eq_2)



lemma should_scrape_body_raises:
  "urlparse lib url = Inl e \<Longrightarrow> should_scrape_body lib url base = Inl e"
  by (simp add: should_scrape_body_def)

lemma urlparse_bad_ipv6: "urlparse lib ''http://[::1/x'' = Inl ValueError"
  by (simp add: url_defs str_defs Let_def)

section \<open>The claims\<close>

text \<open>
  C1.  The page counter exceeds the cap when two workers overlap.  With a cap of
  two pages and two workers, the seed links to two pages; both workers pass
  \<^verbatim>\<open>check_limits\<close> while the counter is 1, both fetch, and both increment: the
  counter and the manifest's \<^verbatim>\<open>pages_scraped\<close> end at 3.  The check and the
  increment hold \<^verbatim>\<open>stop_lock\<close> separately, with the fetch between them.
\<close>

theorem page_cap_exceeded_by_overlap:
  "pages_scraped_count (shared (run_schedule ex_lib world_three_pages [0, 0, 0, 1, 0, 1]
      (start_run 2 (ex_scraper 3 2 50)))) = 3
   \<and> max_pages (shared (run_schedule ex_lib world_three_pages [0, 0, 0, 1, 0, 1]
      (start_run 2 (ex_scraper 3 2 50)))) = 2
   \<and> m_pages_scraped (emit_manifest (shared (run_schedule ex_lib world_three_pages [0, 0, 0, 1, 0, 1]
      (start_run 2 (ex_scraper 3 2 50))))) = 3
   \<and> m_max_pages_limit (emit_manifest (shared (run_schedule ex_lib world_three_pages [0, 0, 0, 1, 0, 1]
      (start_run 2 (ex_scraper 3 2 50))))) = 2"
  unfolding race_run by (simp add: emit_manifest_def ex_scraper_def)

text \<open>
  C2, as the code has it.  Under every schedule of the workers, no page URL
  is requested twice.  Once a call of \<^verbatim>\<open>download_asset\<close> for a URL has returned, a
  later call for the same URL string issues no request.  One call issues at most two
  requests, the second being the retry after a 403, both for the URL without
  its fragment.
\<close>

theorem fetch_once_when_sequential:
  assumes "requests s0 = []" and "(u, t) \<in> set calls"
  shows "distinct (page_gets (requests (shared (run_schedule lib w sched (start_run n s0)))))
       \<and> requests (snd (download_asset lib w u t' (download_all lib w calls s))) =
           requests (download_all lib w calls s)
       \<and> (\<exists>k\<le>2. requests (snd (download_asset lib w u t s)) =
                    requests s @ replicate k (AssetGet (takeWhile (\<lambda>c. c \<noteq> CHR ''#'') u)))"
proof -
  have "fetch_inv (start_run n s0)"
    using assms(1) by (simp add: fetch_inv_start)
  then have "fetch_inv (run_schedule lib w sched (start_run n s0))"
    by (rule fetch_inv_run_schedule)
  then have pages: "distinct (page_gets (requests (shared (run_schedule lib w sched (start_run n s0)))))"
    by (simp add: fetch_inv_def)
  have "asset_cached u (download_all lib w calls s)"
    using assms(2) by (rule asset_cached_download_all)
  then have again: "snd (download_asset lib w u t' (download_all lib w calls s)) = download_all lib w calls s"
    by (rule asset_cached_no_request)
  from pages again download_asset_requests[of lib w u t s] show ?thesis
    by simp
qed

text \<open>
  Two workers crawl three pages, and one asset is downloaded twice in a row.
\<close>

theorem fetch_once_when_sequential_witness:
  "requests (ex_scraper 3 2 50) = []
   \<and> (''http://h/s.svg'', ''image'') \<in> set [(''http://h/s.svg'', ''image'')]
   \<and> distinct (page_gets (requests (shared (run_schedule ex_lib world_three_pages [0, 0, 0, 1, 0, 1]
         (start_run 2 (ex_scraper 3 2 50))))))
   \<and> requests (snd (download_asset ex_lib world_assets ''http://h/s.svg'' ''image''
         (download_all ex_lib world_assets [(''http://h/s.svg'', ''image'')] (ex_scraper 3 2 50)))) =
       requests (download_all ex_lib world_assets [(''http://h/s.svg'', ''image'')] (ex_scraper 3 2 50))"
proof -
  have fresh: "requests (ex_scraper 3 2 50) = []"
    by (simp add: ex_scraper_def)
  have called: "(''http://h/s.svg'', ''image'') \<in> set [(''http://h/s.svg'', ''image'')]"
    by simp
  from fetch_once_when_sequential[OF fresh called, where lib = ex_lib and w = world_three_pages
        and sched = "[0, 0, 0, 1, 0, 1]" and n = 2]
    fetch_once_when_sequential[OF fresh called, where lib = ex_lib and w = world_assets
        and t' = "''image''" and s = "ex_scraper 3 2 50"]
    fresh called
  show ?thesis by blast
qed

text \<open>
  C2 as stated fails.  A single call answered by a 403 requests the same URL
  twice; and a second caller that starts while the first is waiting for the
  answer finds no cache entry and issues a request of its own.
\<close>

theorem asset_fetched_twice:
  "asset_gets (requests (snd (download_asset ex_lib world_assets ''http://h/logo.png'' ''image''
       (ex_scraper 3 100 50)))) = [''http://h/logo.png'', ''http://h/logo.png'']
   \<and> asset_gets (requests (snd (download_asset_begin ex_lib world_assets ''http://h/s.svg''
       (snd (download_asset_begin ex_lib world_assets ''http://h/s.svg'' (ex_scraper 3 100 50))))))
     = [''http://h/s.svg'', ''http://h/s.svg'']"
  by (simp add: asset_defs asset_gets_def ex_scraper_def strip_svg_fragment urlparse_logo urlparse_svg
        serve_assets)




text \<open>
  C4.  A page whose write to disk fails still gets its record, with no file path,
  and is counted as scraped, not as failed: \<^verbatim>\<open>process_url\<close> stores what
  \<^verbatim>\<open>save_page_content\<close> returns without looking at it.
\<close>

theorem write_failure_still_recorded:
  "map_option pr_filepath
     (scraped_data (snd (process_url ex_lib world_write_fails ''http://h/a'' 0 (ex_scraper 3 100 50)))
        ''http://h/a'') = Some None
   \<and> map_option pr_filepath
     (m_pages (emit_manifest (snd (process_url ex_lib world_write_fails ''http://h/a'' 0 (ex_scraper 3 100 50))))
        ''http://h/a'') = Some None
   \<and> stats_pages_failed (snd (process_url ex_lib world_write_fails ''http://h/a'' 0 (ex_scraper 3 100 50))) = 0
   \<and> stats_pages_scraped (snd (process_url ex_lib world_write_fails ''http://h/a'' 0 (ex_scraper 3 100 50))) = 1
   \<and> pages_scraped_count (snd (process_url ex_lib world_write_fails ''http://h/a'' 0 (ex_scraper 3 100 50))) = 1
   \<and> files (snd (process_url ex_lib world_write_fails ''http://h/a'' 0 (ex_scraper 3 100 50))) = Map.empty"
  unfolding write_failure_run by (simp add: emit_manifest_def ex_scraper_def)

text \<open>
  C5.  When robots.txt is answered by a 404, \<^verbatim>\<open>can_fetch\<close> allows the URL and leaves
  the cache empty; the next query for the same origin requests robots.txt again.
\<close>

theorem robots_failure_not_cached:
  "can_fetch ex_lib (site []) ''http://h/a'' ''WebArchiver/1.0'' (ex_scraper 3 100 50) =
     (True, (ex_scraper 3 100 50)\<lparr>requests := [RobotsGet ''http://h/robots.txt'']\<rparr>)
   \<and> can_fetch ex_lib (site []) ''http://h/b'' ''WebArchiver/1.0''
       ((ex_scraper 3 100 50)\<lparr>requests := [RobotsGet ''http://h/robots.txt'']\<rparr>) =
     (True, (ex_scraper 3 100 50)
        \<lparr>requests := [RobotsGet ''http://h/robots.txt'', RobotsGet ''http://h/robots.txt'']\<rparr>)
   \<and> robots_cache (ex_scraper 3 100 50) = Map.empty"
  by (simp add: can_fetch_def http_get_def urlparse_a urlparse_b serve_nothing ex_scraper_def Let_def)

text \<open>
  C6.  Two asset URLs that differ in their fragment are looked up in the cache
  with the fragment: the second download finds no entry, requests the same
  cleaned URL again and adds a second entry, with the same local path.
\<close>

theorem fragments_not_shared_in_cache:
  "asset_map (snd (download_asset ex_lib world_assets ''http://h/s.svg#a'' ''image'' (ex_scraper 3 100 50)))
     ''http://h/s.svg#b'' = None
   \<and> download_asset ex_lib world_assets ''http://h/s.svg#b'' ''image''
       (snd (download_asset ex_lib world_assets ''http://h/s.svg#a'' ''image'' (ex_scraper 3 100 50))) =
     (Some ''images/cf63f22e1283165d44932f71bb57fa7e.svg'',
      (ex_scraper 3 100 50)
        \<lparr>asset_map := [''http://h/s.svg#a'' \<mapsto> ''images/cf63f22e1283165d44932f71bb57fa7e.svg'',
                       ''http://h/s.svg#b'' \<mapsto> ''images/cf63f22e1283165d44932f71bb57fa7e.svg''],
         requests := [AssetGet ''http://h/s.svg'', AssetGet ''http://h/s.svg''],
         files := [''out/images/cf63f22e1283165d44932f71bb57fa7e.svg'' \<mapsto> ''<svg/>'']\<rparr>)"
  by (simp add: download_svg_a download_svg_b)

text \<open>
  C7.  A css asset whose URL path has no extension is stored with the extension
  \<^verbatim>\<open>.bin\<close>, not \<^verbatim>\<open>.css\<close>: the empty extension is replaced by \<^verbatim>\<open>.bin\<close> before the
  type-specific defaults are looked at, so these are used for an extension of
  more than ten characters only.
\<close>

theorem css_without_extension_gets_bin:
  "get_asset_local_path lib ''http://h/style'' ''css'' =
     Inr (''css/'' @ md5_hexdigest lib ''http://h/style'' @ ''.bin'')"
  by (simp add: get_asset_local_path_def urlparse_style splitext_ext_def Let_def)

text \<open>
  C8.  For \<^verbatim>\<open>srcset="a.png 1x, b.png 2x"\<close> where the download of \<^verbatim>\<open>a.png\<close> fails and that
  of \<^verbatim>\<open>b.png\<close> succeeds, the attribute ends as the single URL \<^verbatim>\<open>http://h/a.png\<close>:
  the failure branch overwrites the whole attribute, so the descriptors and the
  other candidate are lost.
\<close>

theorem srcset_failure_overwrites_attribute:
  "parse_html ex_lib page_srcset = soup_srcset ''a.png 1x, b.png 2x''
   \<and> fst (rewrite_html_urls ex_lib world_assets page_srcset ''http://h/p'' (ex_scraper 3 100 50)) =
       Inr (page_srcset_of ''http://h/a.png'')
   \<and> asset_map (snd (rewrite_html_urls ex_lib world_assets page_srcset ''http://h/p'' (ex_scraper 3 100 50)))
       ''http://h/b.png'' = Some ''images/e4938a6a6b2137221031c06709fb3b54.png''
   \<and> ''http://h/a.png'' \<in> failed_assets
       (snd (rewrite_html_urls ex_lib world_assets page_srcset ''http://h/p'' (ex_scraper 3 100 50)))"
  unfolding srcset_rewrite_run by (simp add: parse_srcset ex_scraper_def)

text \<open>
  C9.  Scenario S6: the seed \<^verbatim>\<open>http://h/a\<close> links to \<^verbatim>\<open>/private\<close>, which robots.txt
  forbids.  With limits that let the link be followed, the run of one worker
  ends with no page record for \<^verbatim>\<open>/private\<close>, with \<^verbatim>\<open>/private\<close> in the visited set and
  never requested, and the stored seed page holds the anchor with the absolute
  URL \<^verbatim>\<open>http://h/private\<close>.
\<close>

theorem robots_deny_scenario:
  assumes "s6_library lib" and "1 \<le> d" and "2 \<le> p" and "2 \<le> q"
  shows "scraped_data (shared (run_schedule lib world_robots_deny [0, 0, 0, 0]
                         (start_run 1 (ex_scraper d p q)))) ''http://h/private'' = None
       \<and> ''http://h/private'' \<in> visited_urls (shared (run_schedule lib world_robots_deny [0, 0, 0, 0]
                         (start_run 1 (ex_scraper d p q))))
       \<and> PageGet ''http://h/private'' \<notin> set (requests (shared (run_schedule lib world_robots_deny
                         [0, 0, 0, 0] (start_run 1 (ex_scraper d p q)))))
       \<and> files (shared (run_schedule lib world_robots_deny [0, 0, 0, 0]
                         (start_run 1 (ex_scraper d p q))))
            (''out/html/'' @ md5_hexdigest lib ''http://h/a'' @ ''.html'') = Some page_private_link_rewritten
       \<and> parse_html lib page_private_link_rewritten = soup_link ''http://h/private''
       \<and> queue (shared (run_schedule lib world_robots_deny [0, 0, 0, 0]
                         (start_run 1 (ex_scraper d p q)))) = []
       \<and> workers (run_schedule lib world_robots_deny [0, 0, 0, 0]
                         (start_run 1 (ex_scraper d p q))) = [Idle]"
proof -
  from assms(1) have "parse_html lib page_private_link_rewritten = soup_link ''http://h/private''"
    by (simp add: s6_library_def)
  then show ?thesis
    unfolding robots_deny_run[OF assms]
    by (simp add: ex_scraper_def)
qed

text \<open>The example library and the default limits: depth 3, 100 pages, 50 pages per domain.\<close>

theorem robots_deny_scenario_witness:
  "s6_library ex_lib \<and> (1::int) \<le> 3 \<and> (2::int) \<le> 100 \<and> (2::int) \<le> 50
   \<and> scraped_data (shared (run_schedule ex_lib world_robots_deny [0, 0, 0, 0]
                         (start_run 1 (ex_scraper 3 100 50)))) ''http://h/private'' = None
   \<and> ''http://h/private'' \<in> visited_urls (shared (run_schedule ex_lib world_robots_deny [0, 0, 0, 0]
                         (start_run 1 (ex_scraper 3 100 50))))
   \<and> files (shared (run_schedule ex_lib world_robots_deny [0, 0, 0, 0]
                         (start_run 1 (ex_scraper 3 100 50))))
        ''out/html/2ce7276502725c281e6d5ae4e55aed55.html'' = Some page_private_link_rewritten"
proof -
  have d: "(1::int) \<le> 3" and p: "(2::int) \<le> 100" and q: "(2::int) \<le> 50"
    by simp_all
  from robots_deny_scenario[OF s6_library_ex_lib d p q, unfolded md5_a] s6_library_ex_lib d p q
  show ?thesis
    by simp
qed

text \<open>
  C10.  \<^verbatim>\<open>URLFilter.should_scrape\<close> returns a boolean for every URL and every base
  domain and never raises: when parsing or filtering raises an exception, the
  result is \<^verbatim>\<open>False\<close>.
\<close>

theorem should_scrape_total:
  "(\<exists>b. should_scrape lib url base = Inr b) \<and>
   ((\<exists>e. should_scrape_body lib url base = Inl e) \<longrightarrow>
      should_scrape lib url base = Inr False) \<and>
   ((\<exists>e. urlparse lib url = Inl e) \<or> (\<exists>e. urlparse lib base = Inl e) \<longrightarrow>
      should_scrape lib url base = Inr False)"
  by (cases "urlparse lib url"; cases "urlparse lib base")
     (auto simp add: should_scrape_def should_scrape_body_def)

text \<open>The malformed URL \<^verbatim>\<open>http://[::1/x\<close> makes \<^verbatim>\<open>urlparse\<close> raise; the filter rejects it.\<close>

theorem should_scrape_total_witness:
  "urlparse ex_lib ''http://[::1/x'' = Inl ValueError \<and>
   should_scrape_body ex_lib ''http://[::1/x'' ''http://h'' = Inl ValueError \<and>
   should_scrape ex_lib ''http://[::1/x'' ''http://h'' = Inr False"
proof -
  have parse: "urlparse ex_lib ''http://[::1/x'' = Inl ValueError"
    by (rule urlparse_bad_ipv6)
  then have raised: "should_scrape_body ex_lib ''http://[::1/x'' ''http://h'' = Inl ValueError"
    by (rule should_scrape_body_raises)
  from should_scrape_total[of ex_lib "''http://[::1/x''" "''http://h''"] parse raised
  show ?thesis by blast
qed

end
